theory Spec2Isabelle
  imports Complex_Main
begin

section \<open>Strings, as \<^verbatim>\<open>src/sync.js\<close> uses them\<close>

text \<open>
  A JavaScript string is a sequence of UTF-16 code units. The model keeps the code units
  below 256 (Latin-1), one \<^typ>\<open>char\<close> each; on that range \<^verbatim>\<open>trim\<close>,
  \<^verbatim>\<open>toLowerCase\<close> and the character classes of the regular expressions are
  modelled exactly. Strings with code units above 255 are outside the model.
\<close>

definition code :: "char \<Rightarrow> nat" where
  "code c = of_char c"

text \<open>The class \<^verbatim>\<open>\d\<close> (no \<^verbatim>\<open>u\<close> flag): the digits 0-9.\<close>

definition is_digit :: "char \<Rightarrow> bool" where
  "is_digit c = (48 \<le> code c \<and> code c \<le> 57)"

text \<open>The class \<^verbatim>\<open>[a-z\d]\<close>.\<close>

definition is_lower_alnum :: "char \<Rightarrow> bool" where
  "is_lower_alnum c = ((97 \<le> code c \<and> code c \<le> 122) \<or> is_digit c)"

text \<open>The class \<^verbatim>\<open>[A-Z0-9]\<close>.\<close>

definition is_upper_alnum :: "char \<Rightarrow> bool" where
  "is_upper_alnum c = ((65 \<le> code c \<and> code c \<le> 90) \<or> is_digit c)"

text \<open>
  White space and line terminators of ECMAScript below 256: TAB, LF, VT, FF, CR, SP and
  NBSP. \<^verbatim>\<open>String.prototype.trim\<close> strips them from both ends.
\<close>

definition is_js_space :: "char \<Rightarrow> bool" where
  "is_js_space c = (code c \<in> {9, 10, 11, 12, 13, 32, 160})"

definition trim :: "string \<Rightarrow> string" where
  "trim s = rev (dropWhile is_js_space (rev (dropWhile is_js_space s)))"

text \<open>
  \<^verbatim>\<open>String.prototype.toLowerCase\<close> on Latin-1: A-Z and the accented capitals
  U+00C0..U+00DE (without the multiplication sign U+00D7) move up by 32.
\<close>

definition lower_char :: "char \<Rightarrow> char" where
  "lower_char c =
     (if (65 \<le> code c \<and> code c \<le> 90) \<or> (192 \<le> code c \<and> code c \<le> 222 \<and> code c \<noteq> 215)
      then char_of (code c + 32) else c)"

definition toLowerCase :: "string \<Rightarrow> string" where
  "toLowerCase s = map lower_char s"

text \<open>
  Truthiness of a value that is a string, \<^verbatim>\<open>null\<close> or \<^verbatim>\<open>undefined\<close>:
  only a non-empty string is truthy.
\<close>

definition truthy :: "string option \<Rightarrow> bool" where
  "truthy v = (case v of None \<Rightarrow> False | Some s \<Rightarrow> s \<noteq> [])"

text \<open>\<^verbatim>\<open>v || null\<close> for such a value.\<close>

definition or_null :: "string option \<Rightarrow> string option" where
  "or_null v = (if truthy v then v else None)"

section \<open>Errors\<close>

text \<open>
  Everything the script can throw: a \<^verbatim>\<open>TypeError\<close> on a property read of
  \<^verbatim>\<open>null\<close>, a \<^verbatim>\<open>RangeError\<close> of the Temporal library, the
  \<^verbatim>\<open>AssertionError\<close> of \<^verbatim>\<open>assert.match\<close>, and a rejected HTTP request.
\<close>

datatype error = TypeError | RangeError | AssertionError | HttpError

section \<open>The two regular expressions\<close>

text \<open>
  \<^verbatim>\<open>/\[([a-z\d]{24})]/\<close> matched at the head of a string: an opening bracket, exactly
  24 characters of the class, a closing bracket. The result is the capture group.
\<close>

definition match_marker_here :: "string \<Rightarrow> string option" where
  "match_marker_here s =
     (case s of
        [] \<Rightarrow> None
      | c # r \<Rightarrow>
          if c = CHR ''['' \<and> 25 \<le> length r \<and> list_all is_lower_alnum (take 24 r)
             \<and> r ! 24 = CHR '']''
          then Some (take 24 r) else None)"

text \<open>The unanchored search of \<^verbatim>\<open>String.prototype.match\<close>: the leftmost match wins.\<close>

fun search_marker :: "string \<Rightarrow> string option" where
  "search_marker [] = None"
| "search_marker (c # r) =
     (case match_marker_here (c # r) of
        Some m \<Rightarrow> Some m
      | None \<Rightarrow> search_marker r)"

text \<open>
  \<^verbatim>\<open>
  function extractInternalId(text) {
    const match = text.trim().match(/\[([a-z\d]{24})]/);
    return match ? match[1] : null;
  }
  \<close>
\<close>

definition extractInternalId :: "string \<Rightarrow> string option" where
  "extractInternalId text = search_marker (trim text)"

text \<open>
  \<^verbatim>\<open>/^([A-Z0-9]+-\d+)/\<close>: the hyphen is not in the first class, so the greedy first
  group is the longest run of the class at the head, and no shorter run can be followed by
  the hyphen; the second group is the longest run of digits.
\<close>

definition match_issue_key :: "string \<Rightarrow> string option" where
  "match_issue_key s =
     (let key = takeWhile is_upper_alnum s; r = dropWhile is_upper_alnum s
      in case r of
           [] \<Rightarrow> None
         | h # t \<Rightarrow>
             (let num = takeWhile is_digit t
              in if key \<noteq> [] \<and> h = CHR ''-'' \<and> num \<noteq> [] then Some (key @ [h] @ num) else None))"

text \<open>
  \<^verbatim>\<open>
  function extractIssueId(text) {
    const match = text.trim().match(/^([A-Z0-9]+-\d+)/);
    return match ? match[1] : null;
  }
  \<close>
\<close>

definition extractIssueId :: "string \<Rightarrow> string option" where
  "extractIssueId text = match_issue_key (trim text)"

text \<open>The shape of an entry identifier that the marker pattern recognises.\<close>

definition marker_shape :: "string \<Rightarrow> bool" where
  "marker_shape s = (length s = 24 \<and> list_all is_lower_alnum s)"

text \<open>The description of a created work item: \<^verbatim>\<open>`${entry.description} [${entry.id}]`\<close>.\<close>

definition create_description :: "string \<Rightarrow> string \<Rightarrow> string" where
  "create_description description ident = description @ '' ['' @ ident @ '']''"

section \<open>The Temporal library: durations\<close>

text \<open>
  \<^verbatim>\<open>Temporal.Duration.from(s).total("minutes")\<close> belongs to the library
  \<^verbatim>\<open>temporal-polyfill\<close>, not to this repository. It is modelled after the Temporal
  specification: the ISO 8601 duration grammar
  \<^verbatim>\<open>[+-]P[nY][nM][nW][nD][T[nH][nM][nS]]\<close> with case-insensitive designators, a decimal
  fraction of one to nine digits on the last time unit only, at least one unit, and at
  least one time unit after \<^verbatim>\<open>T\<close>. A duration keeps its sign, its calendar units, and
  its days; hours and below are kept as one count of nanoseconds, which is exact because a
  fraction has at most nine digits.
\<close>

record duration =
  du_negative :: bool
  du_years :: nat
  du_months :: nat
  du_weeks :: nat
  du_days :: nat
  du_time_ns :: nat

definition digits_value :: "string \<Rightarrow> nat" where
  "digits_value ds = foldl (\<lambda>n c. 10 * n + (code c - 48)) 0 ds"

definition is_designator :: "char \<Rightarrow> char \<Rightarrow> bool" where
  "is_designator d c = (c = d \<or> c = lower_char d)"

text \<open>An optional date unit \<^verbatim>\<open>(?:(\d+)X)?\<close> at the head of a string.\<close>

definition date_unit :: "char \<Rightarrow> string \<Rightarrow> nat option \<times> string" where
  "date_unit d s =
     (let ds = takeWhile is_digit s
      in case dropWhile is_digit s of
           [] \<Rightarrow> (None, s)
         | h # t \<Rightarrow> if ds \<noteq> [] \<and> is_designator d h then (Some (digits_value ds), t) else (None, s))"

text \<open>
  An optional time unit \<^verbatim>\<open>(?:(\d+)(?:[.,](\d{1,9}))?X)?\<close> at the head of a string:
  its length in nanoseconds (one unit is \<open>unit_ns\<close> nanoseconds) and whether it carries a
  fraction.
\<close>

definition time_unit :: "char \<Rightarrow> nat \<Rightarrow> string \<Rightarrow> (nat \<times> bool) option \<times> string" where
  "time_unit d unit_ns s =
     (let ds = takeWhile is_digit s
      in case dropWhile is_digit s of
           [] \<Rightarrow> (None, s)
         | h # t \<Rightarrow>
             if ds = [] then (None, s)
             else if h = CHR ''.'' \<or> h = CHR '','' then
               (let fs = takeWhile is_digit t
                in case dropWhile is_digit t of
                     [] \<Rightarrow> (None, s)
                   | h2 # t2 \<Rightarrow>
                       if 1 \<le> length fs \<and> length fs \<le> 9 \<and> is_designator d h2
                       then (Some (digits_value ds * unit_ns
                                   + (digits_value fs * unit_ns) div 10 ^ length fs, True), t2)
                       else (None, s))
             else if is_designator d h then (Some (digits_value ds * unit_ns, False), t)
             else (None, s))"

definition unit_value :: "nat option \<Rightarrow> nat" where
  "unit_value v = (case v of None \<Rightarrow> 0 | Some n \<Rightarrow> n)"

definition time_value :: "(nat \<times> bool) option \<Rightarrow> nat" where
  "time_value v = (case v of None \<Rightarrow> 0 | Some (n, _) \<Rightarrow> n)"

definition has_fraction :: "(nat \<times> bool) option \<Rightarrow> bool" where
  "has_fraction v = (case v of None \<Rightarrow> False | Some (_, f) \<Rightarrow> f)"

definition split_sign :: "string \<Rightarrow> bool \<times> string" where
  "split_sign s =
     (case s of
        [] \<Rightarrow> (False, s)
      | c # r \<Rightarrow> if c = CHR ''-'' then (True, r) else if c = CHR ''+'' then (False, r) else (False, s))"

definition parse_duration :: "string \<Rightarrow> duration option" where
  "parse_duration s =
     (let (neg, s1) = split_sign s
      in case s1 of
           [] \<Rightarrow> None
         | p # s2 \<Rightarrow>
             if \<not> is_designator (CHR ''P'') p then None
             else
               (let (y, s3) = date_unit (CHR ''Y'') s2;
                    (mo, s4) = date_unit (CHR ''M'') s3;
                    (w, s5) = date_unit (CHR ''W'') s4;
                    (d, s6) = date_unit (CHR ''D'') s5
                in case s6 of
                     [] \<Rightarrow>
                       if y = None \<and> mo = None \<and> w = None \<and> d = None then None
                       else Some \<lparr>du_negative = neg, du_years = unit_value y,
                                  du_months = unit_value mo, du_weeks = unit_value w,
                                  du_days = unit_value d, du_time_ns = 0\<rparr>
                   | t # s7 \<Rightarrow>
                       if \<not> is_designator (CHR ''T'') t then None
                       else
                         (let (h, s8) = time_unit (CHR ''H'') 3600000000000 s7;
                              (mi, s9) = time_unit (CHR ''M'') 60000000000 s8;
                              (se, s10) = time_unit (CHR ''S'') 1000000000 s9
                          in if s10 \<noteq> [] \<or> (h = None \<and> mi = None \<and> se = None)
                                \<or> (has_fraction h \<and> (mi \<noteq> None \<or> se \<noteq> None))
                                \<or> (has_fraction mi \<and> se \<noteq> None)
                             then None
                             else Some \<lparr>du_negative = neg, du_years = unit_value y,
                                        du_months = unit_value mo, du_weeks = unit_value w,
                                        du_days = unit_value d,
                                        du_time_ns = time_value h + time_value mi + time_value se\<rparr>)))"

text \<open>
  A duration is valid when years, months and weeks are below \<open>2^32\<close> and days and time
  together are below \<open>2^53\<close> seconds.
\<close>

definition valid_duration :: "duration \<Rightarrow> bool" where
  "valid_duration d =
     (du_years d < 2 ^ 32 \<and> du_months d < 2 ^ 32 \<and> du_weeks d < 2 ^ 32
      \<and> du_days d * 86400000000000 + du_time_ns d < 2 ^ 53 * 1000000000)"

text \<open>\<^verbatim>\<open>Temporal.Duration.from(s)\<close> for a string: a \<^verbatim>\<open>RangeError\<close> when it does not parse.\<close>

definition Duration_from :: "string \<Rightarrow> error + duration" where
  "Duration_from s =
     (case parse_duration s of
        None \<Rightarrow> Inl RangeError
      | Some d \<Rightarrow> if valid_duration d then Inr d else Inl RangeError)"

text \<open>
  A JavaScript number is an IEEE 754 double. The model keeps a number as the rational that
  the double is, and \<open>nearest_double a b\<close> is the double nearest to the quotient
  \<open>a / b\<close> of two natural numbers (\<open>b\<close> not zero). With \<open>fl\<close> the exponent of the
  quotient (\<open>2^fl \<le> a / b < 2^(fl + 1)\<close>) and \<open>e = fl - 52\<close>, the quotient
  \<open>a / (b * 2^e)\<close> lies between \<open>2^52\<close> and \<open>2^53\<close>; it is rounded to an integer
  \<open>m\<close>, a tie to the even one, and the double is \<open>m * 2^e\<close>. The quotients of this
  program are far from the largest and the smallest doubles, so overflow and subnormal
  numbers play no part.
\<close>

fun bit_length :: "nat \<Rightarrow> nat" where
  "bit_length n = (if n = 0 then 0 else Suc (bit_length (n div 2)))"

definition pow2 :: "int \<Rightarrow> rat" where
  "pow2 e = (if 0 \<le> e then 2 ^ nat e else 1 / 2 ^ nat (- e))"

text \<open>The quotient \<open>n / d\<close> rounded to the nearest integer, a tie to the even one.\<close>

definition round_half_even :: "nat \<Rightarrow> nat \<Rightarrow> nat" where
  "round_half_even n d =
     (let q = n div d; r = n mod d
      in if 2 * r < d then q else if d < 2 * r then q + 1 else if even q then q else q + 1)"

definition nearest_double :: "nat \<Rightarrow> nat \<Rightarrow> rat" where
  "nearest_double a b =
     (if a = 0 then 0
      else
        (let k = int (bit_length a) - int (bit_length b);
             fl = (if (if 0 \<le> k then b * 2 ^ nat k \<le> a else b \<le> a * 2 ^ nat (- k)) then k
                   else k - 1);
             e = fl - 52;
             m = (if 0 \<le> e then round_half_even a (b * 2 ^ nat e)
                  else round_half_even (a * 2 ^ nat (- e)) b)
         in of_nat m * pow2 e))"

text \<open>
  \<^verbatim>\<open>duration.total("minutes")\<close> without \<^verbatim>\<open>relativeTo\<close>: a \<^verbatim>\<open>RangeError\<close> when
  a calendar unit (years, months, weeks) is not zero; a day counts 24 hours. The result is
  the number for the exact quotient of the nanoseconds by those of a minute, with the sign
  of the duration.
\<close>

definition total_minutes :: "duration \<Rightarrow> error + rat" where
  "total_minutes d =
     (if du_years d \<noteq> 0 \<or> du_months d \<noteq> 0 \<or> du_weeks d \<noteq> 0 then Inl RangeError
      else
        (let q = nearest_double (du_days d * 86400000000000 + du_time_ns d) 60000000000
         in Inr (if du_negative d then - q else q)))"

section \<open>The Temporal library: a date and time in the zone UTC\<close>

text \<open>
  \<^verbatim>\<open>Temporal.Now.zonedDateTimeISO("UTC")\<close> is an instant, a count of nanoseconds since
  1970-01-01T00:00:00Z, read in the zone UTC, where every day has 24 hours.
  \<^verbatim>\<open>startOfDay\<close> goes back to the last midnight, and adding or subtracting days moves
  by whole days; a result beyond \<open>10^8\<close> days from the epoch is a \<^verbatim>\<open>RangeError\<close>.
\<close>

definition ns_per_day :: int where
  "ns_per_day = 86400000000000"

definition startOfDay :: "int \<Rightarrow> int" where
  "startOfDay t = t - t mod ns_per_day"

definition add_days :: "int \<Rightarrow> int \<Rightarrow> error + int" where
  "add_days t n =
     (let r = t + n * ns_per_day
      in if \<bar>r\<bar> \<le> 100000000 * ns_per_day then Inr r else Inl RangeError)"

text \<open>
  Reading a calendar date of the proleptic Gregorian calendar as a day number since
  1970-01-01, and a UTC date and time as an instant. These two definitions are not part of
  the program: they give the timestamps in the statements below their meaning.
\<close>

definition days_from_civil :: "int \<Rightarrow> int \<Rightarrow> int \<Rightarrow> int" where
  "days_from_civil y m d =
     (let y' = (if m \<le> 2 then y - 1 else y);
          era = y' div 400;
          yoe = y' - era * 400;
          doy = (153 * (if 2 < m then m - 3 else m + 9) + 2) div 5 + d - 1;
          doe = yoe * 365 + yoe div 4 - yoe div 100 + doy
      in era * 146097 + doe - 719468)"

definition utc :: "int \<Rightarrow> int \<Rightarrow> int \<Rightarrow> int \<Rightarrow> int \<Rightarrow> int \<Rightarrow> int" where
  "utc y m d h mi s = ((days_from_civil y m d * 24 + h) * 60 + mi) * 60 * 1000000000 + s * 1000000000"

section \<open>Data\<close>

text \<open>
  A billable entry as the time tracker returns it (\<^verbatim>\<open>hydrated: true\<close>). The
  identifier and the description are only copied by \<^verbatim>\<open>createTimeEntry\<close>. Every
  other field that it reads may be missing (\<^verbatim>\<open>null\<close> or \<^verbatim>\<open>undefined\<close>):
  the tag list, the name of a tag, the task and its name, the interval, its start and its
  duration. A field that is there has the type that the time tracker gives it: names,
  start and duration are strings.
\<close>

record tag =
  tag_name :: "string option"

record task =
  task_name :: "string option"

record time_interval =
  ti_start :: "string option"
  ti_duration :: "string option"

record billable_entry =
  be_id :: string
  be_description :: string
  be_tags :: "tag list option"
  be_task :: "task option"
  be_timeInterval :: "time_interval option"
  be_billable :: bool

text \<open>
  \<^verbatim>\<open>new Date(s)\<close>: the date object built from the string \<open>s\<close>. Its time value
  (\<^verbatim>\<open>getTime()\<close>) and its printed form (\<^verbatim>\<open>toDateString()\<close>) are functions of
  \<open>s\<close>, and the model keeps \<open>s\<close> in their place. The constructor never throws: a
  string that is no date gives the invalid date.
\<close>

datatype jsdate = Date string

text \<open>
  The minutes of a time entry are a JavaScript number: the rational that the double is.
  The object that \<^verbatim>\<open>createTimeEntry\<close> returns:
\<close>

record time_entry =
  te_id :: string
  te_description :: string
  te_type :: "string option"
  te_issueId :: "string option"
  te_startDate :: "jsdate option"
  te_durationMinutes :: "rat option"

text \<open>A work item of the issue tracker, with the fields the script asks for.\<close>

record work_item =
  wi_text :: "string option"
  wi_date :: jsdate

record work_item_type =
  wt_id :: string
  wt_name :: string

text \<open>
  What a read \<^verbatim>\<open>workTypes[name]\<close> can give, beside \<^verbatim>\<open>undefined\<close>: the
  identifier stored under the name, a string, or, since \<^verbatim>\<open>workTypes\<close> is a plain
  object, the value that every object inherits from \<^verbatim>\<open>Object.prototype\<close> under
  that name, a function or an object, which is truthy.
\<close>

datatype js_value = Str string | Inherited string

definition truthy_value :: "js_value option \<Rightarrow> bool" where
  "truthy_value v =
     (case v of
        None \<Rightarrow> False
      | Some (Str s) \<Rightarrow> s \<noteq> []
      | Some (Inherited _) \<Rightarrow> True)"

text \<open>The names of the properties of \<^verbatim>\<open>Object.prototype\<close>.\<close>

definition object_prototype_names :: "string list" where
  "object_prototype_names =
     [''constructor'', ''__proto__'', ''hasOwnProperty'', ''isPrototypeOf'',
      ''propertyIsEnumerable'', ''toLocaleString'', ''toString'', ''valueOf'',
      ''__defineGetter__'', ''__defineSetter__'', ''__lookupGetter__'', ''__lookupSetter__'']"

text \<open>
  A read \<^verbatim>\<open>obj[name]\<close> of a plain object with the own properties \<open>obj\<close>: the own
  property first, then the prototype.
\<close>

definition get_property :: "(string \<rightharpoonup> string) \<Rightarrow> string \<Rightarrow> js_value option" where
  "get_property obj name =
     (case obj name of
        Some v \<Rightarrow> Some (Str v)
      | None \<Rightarrow> if name \<in> set object_prototype_names then Some (Inherited name) else None)"

text \<open>The object \<^verbatim>\<open>data\<close> that the loop of \<^verbatim>\<open>sync\<close> builds for a new work item.\<close>

record create_data =
  cd_description :: string
  cd_date :: jsdate
  cd_durationMinutes :: "rat option"
  cd_workTypeId :: "js_value option"

text \<open>The body of the POST request.\<close>

record post_body =
  pb_duration_minutes :: "rat option"
  pb_text :: string
  pb_date :: jsdate
  pb_type_id :: "js_value option"

text \<open>
  The command line options. \<^verbatim>\<open>lastNDays\<close> is the result of \<^verbatim>\<open>parseInt\<close>;
  \<open>None\<close> stands for an option that was not given and for \<^verbatim>\<open>NaN\<close>, which are both
  falsy, and the code only tests the value and subtracts it.
\<close>

record options =
  opt_today :: bool
  opt_yesterday :: bool
  opt_lastNDays :: "int option"
  opt_dryRun :: bool

section \<open>The issue tracker\<close>

text \<open>
  The issue tracker is outside the repository. Its state is the work items of each issue
  that exists and the work item types; the list of the POST requests it has received is
  kept beside them, so that a theorem can say which requests a run has sent.
\<close>

record tracker =
  tr_issues :: "string \<rightharpoonup> work_item list"
  tr_workItemTypes :: "work_item_type list"
  tr_posted :: "(string \<times> post_body) list"

text \<open>
  \<^verbatim>\<open>GET /issues/{id}/timeTracking/workItems?fields=text,date&$skip=..&$top=..\<close>: the
  items from \<open>skip\<close> on, at most \<^verbatim>\<open>$top\<close> of them; an unknown issue is an HTTP error.
\<close>

definition tracker_get :: "tracker \<Rightarrow> string \<Rightarrow> nat \<Rightarrow> nat \<Rightarrow> error + work_item list" where
  "tracker_get w issueId skip top_n =
     (case tr_issues w issueId of
        None \<Rightarrow> Inl HttpError
      | Some items \<Rightarrow> Inr (take top_n (drop skip items)))"

text \<open>
  \<^verbatim>\<open>POST /issues/{id}/timeTracking/workItems\<close>: the request is received, and the new
  item is appended to the issue; an unknown issue is an HTTP error.
\<close>

definition tracker_post :: "string \<Rightarrow> post_body \<Rightarrow> tracker \<Rightarrow> tracker \<times> error option" where
  "tracker_post issueId body w =
     (let w' = w\<lparr>tr_posted := tr_posted w @ [(issueId, body)]\<rparr>
      in case tr_issues w issueId of
           None \<Rightarrow> (w', Some HttpError)
         | Some items \<Rightarrow>
             (w'\<lparr>tr_issues := (tr_issues w)(issueId \<mapsto>
                    items @ [\<lparr>wi_text = Some (pb_text body), wi_date = pb_date body\<rparr>])\<rparr>, None))"

section \<open>The API calls\<close>

text \<open>
  \<^verbatim>\<open>
  async function getBillableEntries(dateRange = {}) {
    const { data } = await clockifyApi.get("", { ... params: { ...dateRange, hydrated: true } });
    return (data || []).filter((entry) => entry.billable);
  }
  \<close>
  The time tracker is a function from the date range to its answer.
\<close>

definition getBillableEntries ::
  "(int \<times> int \<Rightarrow> error + billable_entry list) \<Rightarrow> int \<times> int \<Rightarrow> error + billable_entry list" where
  "getBillableEntries clockify dateRange =
     (case clockify dateRange of
        Inl e \<Rightarrow> Inl e
      | Inr data \<Rightarrow> Inr (filter be_billable data))"

definition limit :: nat where
  "limit = 5000"

text \<open>
  \<^verbatim>\<open>
  async function getIssueWorkItems(issueId) {
    const items = [];
    let skip = 0;
    const limit = 5000;
    while (true) {
      const { data } = await youTrackApi.get(`/issues/${issueId}/...&$skip=${skip}&$top=${limit}`);
      items.push(...data);
      if (data.length < limit) break;
      skip += limit;
    }
    return items;
  }
  \<close>
  The loop has no bound of its own, so it is a partial function: \<open>None\<close> is a loop that
  never ends. \<open>get\<close> is the answer of the issue tracker to a request. Beside the items (or
  the error of a rejected request) the model returns the offsets of the requests it has
  sent, in order.
\<close>

partial_function (option) getIssueWorkItems_loop ::
  "(string \<Rightarrow> nat \<Rightarrow> nat \<Rightarrow> error + work_item list) \<Rightarrow> string \<Rightarrow> work_item list \<Rightarrow> nat \<Rightarrow> nat list
     \<Rightarrow> ((error + work_item list) \<times> nat list) option" where
  "getIssueWorkItems_loop get issueId items skip sent =
     (case get issueId skip limit of
        Inl e \<Rightarrow> Some (Inl e, sent @ [skip])
      | Inr data \<Rightarrow>
          if length data < limit then Some (Inr (items @ data), sent @ [skip])
          else getIssueWorkItems_loop get issueId (items @ data) (skip + limit) (sent @ [skip]))"

definition getIssueWorkItems ::
  "(string \<Rightarrow> nat \<Rightarrow> nat \<Rightarrow> error + work_item list) \<Rightarrow> string
     \<Rightarrow> ((error + work_item list) \<times> nat list) option" where
  "getIssueWorkItems get issueId = getIssueWorkItems_loop get issueId [] 0 []"

text \<open>
  \<^verbatim>\<open>
  async function postIssueWorkItem(issueId, { durationMinutes, workTypeId, description, date }) {
    assert.match(description, /\[[a-z\d]{24}]/);
    const payload = { duration: { minutes: durationMinutes }, text: description, date: date };
    if (workTypeId) { payload.type = { id: workTypeId }; }
    const { data } = await youTrackApi.post(`/issues/${issueId}/timeTracking/workItems`, payload);
    return data;
  }
  \<close>
\<close>

definition postIssueWorkItem :: "string \<Rightarrow> create_data \<Rightarrow> tracker \<Rightarrow> tracker \<times> error option" where
  "postIssueWorkItem issueId data w =
     (if search_marker (cd_description data) = None then (w, Some AssertionError)
      else tracker_post issueId
             \<lparr>pb_duration_minutes = cd_durationMinutes data,
              pb_text = cd_description data,
              pb_date = cd_date data,
              pb_type_id = (if truthy_value (cd_workTypeId data) then cd_workTypeId data else None)\<rparr> w)"

text \<open>
  \<^verbatim>\<open>
  async function getAllWorkItemTypes() {
    const { data: workTypes } = await youTrackApi.get(`/admin/.../workItemTypes?fields=id,name`);
    return workTypes.reduce((acc, type) => ({ ...acc, [type.name.toLowerCase().trim()]: type.id }), {});
  }
  \<close>
  The result is a plain object; the model gives its own properties, a map from names to
  identifiers, where a later type of the same name replaces an earlier one (a computed key
  defines an own property, also for the name \<^verbatim>\<open>__proto__\<close>). A read of the object
  is \<open>get_property\<close>, which has \<^verbatim>\<open>Object.prototype\<close> behind the own properties.
\<close>

definition getAllWorkItemTypes :: "tracker \<Rightarrow> (string \<rightharpoonup> string)" where
  "getAllWorkItemTypes w =
     foldl (\<lambda>acc ty. acc(trim (toLowerCase (wt_name ty)) \<mapsto> wt_id ty)) Map.empty (tr_workItemTypes w)"

section \<open>The helpers\<close>

text \<open>
  \<^verbatim>\<open>
  function createTimeEntry(billableEntry) {
    const { id, description, tags, task, timeInterval } = billableEntry;
    return {
      id: id,
      description: description,
      type: tags?.[0]?.name.toLowerCase().trim() || null,
      issueId: task?.name ? extractIssueId(task.name) : null,
      startDate: timeInterval.start ? new Date(timeInterval.start) : null,
      durationMinutes: timeInterval.duration
        ? Temporal.Duration.from(timeInterval.duration).total("minutes")
        : null,
    };
  }
  \<close>
  The properties are evaluated in this order. Three of them can throw: the type, a
  \<^verbatim>\<open>TypeError\<close> when the first tag has no name; the start date, a
  \<^verbatim>\<open>TypeError\<close> when there is no interval; and the minutes, the
  \<^verbatim>\<open>RangeError\<close> of the Temporal library.
\<close>

definition entry_type :: "tag list option \<Rightarrow> error + string option" where
  "entry_type tags =
     (case tags of
        None \<Rightarrow> Inr None
      | Some [] \<Rightarrow> Inr None
      | Some (t # _) \<Rightarrow>
          (case tag_name t of
             None \<Rightarrow> Inl TypeError
           | Some name \<Rightarrow> Inr (or_null (Some (trim (toLowerCase name))))))"

definition entry_issueId :: "task option \<Rightarrow> string option" where
  "entry_issueId task =
     (case task of
        None \<Rightarrow> None
      | Some t \<Rightarrow>
          (case task_name t of
             None \<Rightarrow> None
           | Some name \<Rightarrow> if name \<noteq> [] then extractIssueId name else None))"

definition entry_startDate :: "string option \<Rightarrow> jsdate option" where
  "entry_startDate start =
     (case start of
        None \<Rightarrow> None
      | Some s \<Rightarrow> if s \<noteq> [] then Some (Date s) else None)"

definition entry_durationMinutes :: "string option \<Rightarrow> error + rat option" where
  "entry_durationMinutes dur =
     (case dur of
        None \<Rightarrow> Inr None
      | Some s \<Rightarrow>
          if s \<noteq> [] then
            (case Duration_from s of
               Inl e \<Rightarrow> Inl e
             | Inr d \<Rightarrow> (case total_minutes d of Inl e \<Rightarrow> Inl e | Inr q \<Rightarrow> Inr (Some q)))
          else Inr None)"

definition createTimeEntry :: "billable_entry \<Rightarrow> error + time_entry" where
  "createTimeEntry billableEntry =
     (case entry_type (be_tags billableEntry) of
        Inl e \<Rightarrow> Inl e
      | Inr ty \<Rightarrow>
          (case be_timeInterval billableEntry of
             None \<Rightarrow> Inl TypeError
           | Some timeInterval \<Rightarrow>
               (case entry_durationMinutes (ti_duration timeInterval) of
                  Inl e \<Rightarrow> Inl e
                | Inr durationMinutes \<Rightarrow>
                    Inr \<lparr>te_id = be_id billableEntry,
                         te_description = be_description billableEntry,
                         te_type = ty,
                         te_issueId = entry_issueId (be_task billableEntry),
                         te_startDate = entry_startDate (ti_start timeInterval),
                         te_durationMinutes = durationMinutes\<rparr>)))"

text \<open>\<^verbatim>\<open>entries.map(createTimeEntry)\<close>: the first call that throws ends the map.\<close>

fun map_createTimeEntry :: "billable_entry list \<Rightarrow> error + time_entry list" where
  "map_createTimeEntry [] = Inr []"
| "map_createTimeEntry (b # bs) =
     (case createTimeEntry b of
        Inl e \<Rightarrow> Inl e
      | Inr t \<Rightarrow> (case map_createTimeEntry bs of Inl e \<Rightarrow> Inl e | Inr ts \<Rightarrow> Inr (t # ts)))"

text \<open>
  \<^verbatim>\<open>
  function getUniqueBy(arr, keyFn) {
    return Array.from(new Set(arr.map(keyFn).filter(Boolean)));
  }
  \<close>
  A \<^verbatim>\<open>Set\<close> keeps the first occurrence of each value, in the order of insertion.
\<close>

definition getUniqueBy :: "'a list \<Rightarrow> ('a \<Rightarrow> string option) \<Rightarrow> string list" where
  "getUniqueBy arr keyFn = rev (remdups (rev (map the (filter truthy (map keyFn arr)))))"

text \<open>
  \<^verbatim>\<open>
  function getOptionDateRange(now, options) {
    const today = now.startOfDay();
    if (options.today) { return { start: today, end: today.add({ days: 1 }) }; }
    if (options.lastNDays) {
      const start = today.subtract({ days: options.lastNDays });
      return { start: start, end: today };
    }
    // Yesterday is the default
    return { start: today.subtract({ days: 1 }), end: today };
  }
  \<close>
  The result is the pair of start and end. The number 0 is falsy.
\<close>

definition days_before :: "int \<Rightarrow> int \<Rightarrow> error + int \<times> int" where
  "days_before today n =
     (case add_days today (- n) of Inl e \<Rightarrow> Inl e | Inr start \<Rightarrow> Inr (start, today))"

definition getOptionDateRange :: "int \<Rightarrow> options \<Rightarrow> error + int \<times> int" where
  "getOptionDateRange now options =
     (let today = startOfDay now
      in if opt_today options then
           (case add_days today 1 of Inl e \<Rightarrow> Inl e | Inr end_t \<Rightarrow> Inr (today, end_t))
         else
           (case opt_lastNDays options of
              Some n \<Rightarrow> if n \<noteq> 0 then days_before today n else days_before today 1
            | None \<Rightarrow> days_before today 1))"

section \<open>The main function\<close>

text \<open>
  The lines that \<^verbatim>\<open>sync\<close> prints, with the values they interpolate; the date stands
  for its \<^verbatim>\<open>toDateString()\<close>.
\<close>

datatype log_line =
    LogDryRun
  | LogSyncing int int
  | LogNoIssue string jsdate
  | LogSkipping string string jsdate
  | LogSynced string string jsdate

text \<open>What a run has done so far: the issue tracker after its requests, and the lines printed.\<close>

record run_state =
  rs_tracker :: tracker
  rs_log :: "log_line list"

definition print :: "log_line \<Rightarrow> run_state \<Rightarrow> run_state" where
  "print l st = st\<lparr>rs_log := rs_log st @ [l]\<rparr>"

text \<open>
  The markers of the work items of one issue:
  \<^verbatim>\<open>
  const workItemInternalIds = issueWorkItems
    .map((item) => extractInternalId(item.text || ""))
    .filter(Boolean);
  return [issueId, new Set(workItemInternalIds)];
  \<close>
\<close>

definition item_text :: "work_item \<Rightarrow> string" where
  "item_text item = (case wi_text item of None \<Rightarrow> [] | Some t \<Rightarrow> t)"

definition workItemInternalIds :: "work_item list \<Rightarrow> string list" where
  "workItemInternalIds issueWorkItems =
     map the (filter truthy (map (\<lambda>item. extractInternalId (item_text item)) issueWorkItems))"

definition index_issue ::
  "(string \<Rightarrow> nat \<Rightarrow> nat \<Rightarrow> error + work_item list) \<Rightarrow> string \<Rightarrow> (error + string \<times> string set) option" where
  "index_issue get issueId =
     (case getIssueWorkItems get issueId of
        None \<Rightarrow> None
      | Some (Inl e, _) \<Rightarrow> Some (Inl e)
      | Some (Inr issueWorkItems, _) \<Rightarrow> Some (Inr (issueId, set (workItemInternalIds issueWorkItems))))"

text \<open>
  \<^verbatim>\<open>Promise.all\<close>: rejected as soon as one promise is rejected (the model takes the
  first one of the list), pending for ever when none is rejected and one never settles,
  and otherwise fulfilled with all the values.
\<close>

fun promise_all :: "(error + 'a) option list \<Rightarrow> (error + 'a list) option" where
  "promise_all [] = Some (Inr [])"
| "promise_all (r # rs) =
     (case r of
        Some (Inl e) \<Rightarrow> Some (Inl e)
      | Some (Inr x) \<Rightarrow>
          (case promise_all rs of
             None \<Rightarrow> None
           | Some (Inl e) \<Rightarrow> Some (Inl e)
           | Some (Inr xs) \<Rightarrow> Some (Inr (x # xs)))
      | None \<Rightarrow>
          (case promise_all rs of
             Some (Inl e) \<Rightarrow> Some (Inl e)
           | _ \<Rightarrow> None))"

text \<open>\<^verbatim>\<open>new Map(pairs)\<close>: a later pair replaces an earlier one with the same key.\<close>

definition new_Map :: "('k \<times> 'v) list \<Rightarrow> ('k \<rightharpoonup> 'v)" where
  "new_Map pairs = foldl (\<lambda>m (k, v). m(k \<mapsto> v)) Map.empty pairs"

definition workItemsByIssueId ::
  "(string \<Rightarrow> nat \<Rightarrow> nat \<Rightarrow> error + work_item list) \<Rightarrow> string list
     \<Rightarrow> (error + (string \<rightharpoonup> string set)) option" where
  "workItemsByIssueId get uniqueIssueIds =
     (case promise_all (map (index_issue get) uniqueIssueIds) of
        None \<Rightarrow> None
      | Some (Inl e) \<Rightarrow> Some (Inl e)
      | Some (Inr pairs) \<Rightarrow> Some (Inr (new_Map pairs)))"

text \<open>
  The body of the loop over the time entries:
  \<^verbatim>\<open>
  const displayDate = entry.startDate.toDateString();
  if (!entry.issueId) { console.warn(`No Issue: ...`); continue; }
  const existingItems = workItemsByIssueId.get(entry.issueId);
  const exists = existingItems.has(entry.id);
  if (exists) { console.log(`Skipping: ...`); continue; }
  const data = {
    description: `${entry.description} [${entry.id}]`,
    date: entry.startDate.getTime(),
    durationMinutes: entry.durationMinutes,
  };
  if (entry.type && workTypes[entry.type]) { data.workTypeId = workTypes[entry.type]; }
  if (!options.dryRun) { await postIssueWorkItem(entry.issueId, data); }
  console.log(`Synced: ...`);
  \<close>
  Reading a property of \<^verbatim>\<open>null\<close> or \<^verbatim>\<open>undefined\<close> throws a \<^verbatim>\<open>TypeError\<close>.
  The result is the state after the entry, and the error if the body has thrown.
\<close>

definition entry_workTypeId :: "(string \<rightharpoonup> string) \<Rightarrow> string option \<Rightarrow> js_value option" where
  "entry_workTypeId workTypes ty =
     (case ty of
        None \<Rightarrow> None
      | Some t \<Rightarrow>
          if t \<noteq> [] \<and> truthy_value (get_property workTypes t) then get_property workTypes t
          else None)"

definition sync_entry ::
  "options \<Rightarrow> (string \<rightharpoonup> string) \<Rightarrow> (string \<rightharpoonup> string set) \<Rightarrow> time_entry \<Rightarrow> run_state
     \<Rightarrow> run_state \<times> error option" where
  "sync_entry options workTypes byIssueId entry st =
     (case te_startDate entry of
        None \<Rightarrow> (st, Some TypeError)
      | Some startDate \<Rightarrow>
          (case or_null (te_issueId entry) of
             None \<Rightarrow> (print (LogNoIssue (te_description entry) startDate) st, None)
           | Some issueId \<Rightarrow>
               (case byIssueId issueId of
                  None \<Rightarrow> (st, Some TypeError)
                | Some existingItems \<Rightarrow>
                    if te_id entry \<in> existingItems then
                      (print (LogSkipping (te_description entry) issueId startDate) st, None)
                    else
                      (let data = \<lparr>cd_description = create_description (te_description entry) (te_id entry),
                                   cd_date = startDate,
                                   cd_durationMinutes = te_durationMinutes entry,
                                   cd_workTypeId = entry_workTypeId workTypes (te_type entry)\<rparr>
                       in if \<not> opt_dryRun options then
                            (case postIssueWorkItem issueId data (rs_tracker st) of
                               (w, Some e) \<Rightarrow> (st\<lparr>rs_tracker := w\<rparr>, Some e)
                             | (w, None) \<Rightarrow>
                                 (print (LogSynced (te_description entry) issueId startDate)
                                    (st\<lparr>rs_tracker := w\<rparr>), None))
                          else (print (LogSynced (te_description entry) issueId startDate) st, None)))))"

text \<open>\<^verbatim>\<open>for (const entry of timeEntries) { ... }\<close>: an error leaves the loop.\<close>

fun sync_entries ::
  "options \<Rightarrow> (string \<rightharpoonup> string) \<Rightarrow> (string \<rightharpoonup> string set) \<Rightarrow> time_entry list \<Rightarrow> run_state
     \<Rightarrow> run_state \<times> error option" where
  "sync_entries options workTypes byIssueId [] st = (st, None)"
| "sync_entries options workTypes byIssueId (entry # rest) st =
     (case sync_entry options workTypes byIssueId entry st of
        (st', Some e) \<Rightarrow> (st', Some e)
      | (st', None) \<Rightarrow> sync_entries options workTypes byIssueId rest st')"

text \<open>
  \<^verbatim>\<open>sync\<close> itself, from the options, the current instant, the time tracker and the
  issue tracker: the banner of a dry run, the date range, the billable entries, the work
  item types, the time entries, the issues they name, the markers of those issues, and the
  loop. \<open>None\<close> is a run that never ends.
\<close>

definition sync ::
  "options \<Rightarrow> int \<Rightarrow> (int \<times> int \<Rightarrow> error + billable_entry list) \<Rightarrow> tracker
     \<Rightarrow> (run_state \<times> error option) option" where
  "sync options now clockify w =
     (let st0 = \<lparr>rs_tracker = w, rs_log = (if opt_dryRun options then [LogDryRun] else [])\<rparr>
      in case getOptionDateRange now options of
           Inl e \<Rightarrow> Some (st0, Some e)
         | Inr (start, end_t) \<Rightarrow>
             (let st1 = print (LogSyncing start end_t) st0
              in case getBillableEntries clockify (start, end_t) of
                   Inl e \<Rightarrow> Some (st1, Some e)
                 | Inr entries \<Rightarrow>
                     (let workTypes = getAllWorkItemTypes w
                      in case map_createTimeEntry entries of
                           Inl e \<Rightarrow> Some (st1, Some e)
                         | Inr timeEntries \<Rightarrow>
                             (let uniqueIssueIds =
                                    getUniqueBy (filter (\<lambda>entry. truthy (te_issueId entry)) timeEntries)
                                      te_issueId
                              in case workItemsByIssueId (tracker_get w) uniqueIssueIds of
                                   None \<Rightarrow> None
                                 | Some (Inl e) \<Rightarrow> Some (st1, Some e)
                                 | Some (Inr byIssueId) \<Rightarrow>
                                     Some (sync_entries options workTypes byIssueId timeEntries st1)))))"

section \<open>Notions for stating the properties\<close>

text \<open>
  The definitions of this section are not part of the program. The first is the set of
  the issue identifiers that a list of time entries names; \<^verbatim>\<open>sync\<close> indexes exactly
  these issues. The second is the index that \<^verbatim>\<open>sync\<close> gets from the issue tracker of
  the model for them. The third is the list of the POST requests that a run started on
  the tracker \<open>w\<close> has sent when it has reached the state \<open>st\<close>.
\<close>

definition issue_ids :: "time_entry list \<Rightarrow> string set" where
  "issue_ids timeEntries = set (map the (filter truthy (map te_issueId timeEntries)))"

definition tracker_index :: "tracker \<Rightarrow> time_entry list \<Rightarrow> (string \<rightharpoonup> string set)" where
  "tracker_index w timeEntries =
     (\<lambda>i. if i \<in> issue_ids timeEntries
          then (case tr_issues w i of
                  None \<Rightarrow> None
                | Some issued \<Rightarrow> Some (set (workItemInternalIds issued)))
          else None)"

definition create_calls :: "tracker \<Rightarrow> run_state \<Rightarrow> (string \<times> post_body) list" where
  "create_calls w st = drop (length (tr_posted w)) (tr_posted (rs_tracker st))"

text \<open>The markers that the work items of an issue carry in the issue tracker.\<close>

definition tracker_markers :: "tracker \<Rightarrow> string \<Rightarrow> string set" where
  "tracker_markers w i =
     (case tr_issues w i of
        None \<Rightarrow> {}
      | Some issued \<Rightarrow> set (workItemInternalIds issued))"

text \<open>
  Two conditions on a billable entry, for stating when \<^verbatim>\<open>createTimeEntry\<close> throws:
  the entry has a first tag and that tag has no name; and the Temporal library refuses
  the duration string, in the parser or in the conversion to minutes.
\<close>

definition nameless_first_tag :: "billable_entry \<Rightarrow> bool" where
  "nameless_first_tag b =
     (case be_tags b of
        None \<Rightarrow> False
      | Some [] \<Rightarrow> False
      | Some (t # _) \<Rightarrow> tag_name t = None)"

definition refused_duration :: "string \<Rightarrow> bool" where
  "refused_duration s =
     (case Duration_from s of
        Inl _ \<Rightarrow> True
      | Inr d \<Rightarrow> (case total_minutes d of Inl _ \<Rightarrow> True | Inr _ \<Rightarrow> False))"

text \<open>
  Example data for the concrete runs below: the default options, an issue tracker with
  the empty issue ABC-1 and one work item type, and a billable entry of one hour and a
  half on that issue, with a given identifier and description.
\<close>

abbreviation default_options :: options where
  "default_options \<equiv>
     \<lparr>opt_today = False, opt_yesterday = False, opt_lastNDays = None, opt_dryRun = False\<rparr>"

abbreviation dry_options :: options where
  "dry_options \<equiv>
     \<lparr>opt_today = False, opt_yesterday = False, opt_lastNDays = None, opt_dryRun = True\<rparr>"

abbreviation tracker0 :: tracker where
  "tracker0 \<equiv>
     \<lparr>tr_issues = [''ABC-1'' \<mapsto> []],
      tr_workItemTypes = [\<lparr>wt_id = ''12-3'', wt_name = ''Development''\<rparr>],
      tr_posted = []\<rparr>"

abbreviation billable :: "string \<Rightarrow> string \<Rightarrow> billable_entry" where
  "billable ident description \<equiv>
     \<lparr>be_id = ident, be_description = description,
      be_tags = Some [\<lparr>tag_name = Some ''Development''\<rparr>],
      be_task = Some \<lparr>task_name = Some ''ABC-1 Login page''\<rparr>,
      be_timeInterval =
        Some \<lparr>ti_start = Some ''2024-03-14T09:00:00Z'', ti_duration = Some ''PT1H30M''\<rparr>,
      be_billable = True\<rparr>"

abbreviation normalized :: "string \<Rightarrow> string \<Rightarrow> time_entry" where
  "normalized ident description \<equiv>
     \<lparr>te_id = ident, te_description = description, te_type = Some ''development'',
      te_issueId = Some ''ABC-1'', te_startDate = Some (Date ''2024-03-14T09:00:00Z''),
      te_durationMinutes = Some 90\<rparr>"

section \<open>Date-range selection\<close>

lemma utc_values:
  "utc 2024 3 15 10 0 0 = 1710496800000000000"
  "utc 2024 3 15 0 0 0 = 1710460800000000000"
  "utc 2024 3 16 0 0 0 = 1710547200000000000"
  "utc 2024 3 14 0 0 0 = 1710374400000000000"
  "utc 2024 3 12 0 0 0 = 1710201600000000000"
  by (simp_all add: utc_def days_from_civil_def)

lemma startOfDay_midnight: "ns_per_day dvd startOfDay t"
  by (simp add: startOfDay_def minus_mod_eq_mult_div)

lemma add_days_midnight:
  "ns_per_day dvd t \<Longrightarrow> add_days t n = Inr r \<Longrightarrow> ns_per_day dvd r"
  by (auto simp: add_days_def Let_def split: if_splits)

lemma days_before_midnight:
  "ns_per_day dvd t \<Longrightarrow> days_before t n = Inr (s, e) \<Longrightarrow> ns_per_day dvd s \<and> e = t"
  by (auto simp: days_before_def split: sum.splits dest: add_days_midnight)

lemma getOptionDateRange_midnight:
  assumes "getOptionDateRange now options = Inr (s, e)"
  shows "ns_per_day dvd s \<and> ns_per_day dvd e"
proof (cases "opt_today options")
  case True
  with assms obtain r where "add_days (startOfDay now) 1 = Inr r" "s = startOfDay now" "e = r"
    by (auto simp: getOptionDateRange_def Let_def split: sum.splits)
  then show ?thesis
    using startOfDay_midnight [of now] add_days_midnight by blast
next
  case False
  with assms obtain n where "days_before (startOfDay now) n = Inr (s, e)"
    by (auto simp: getOptionDateRange_def Let_def split: option.splits if_splits)
  then show ?thesis
    using startOfDay_midnight [of now] days_before_midnight by blast
qed

text \<open>
  Claim C6. With the current instant 2024-03-15T10:00:00Z, the option \<^verbatim>\<open>--today\<close>
  selects the range from 2024-03-15T00:00:00Z to 2024-03-16T00:00:00Z, no option (the
  default, yesterday) selects 2024-03-14T00:00:00Z to 2024-03-15T00:00:00Z, and
  \<^verbatim>\<open>--last-n-days 3\<close> selects 2024-03-12T00:00:00Z to 2024-03-15T00:00:00Z; and for
  every instant and all options, both boundaries of a selected range are midnights of UTC.
\<close>

theorem date_range_selection:
  "getOptionDateRange (utc 2024 3 15 10 0 0)
     \<lparr>opt_today = True, opt_yesterday = y, opt_lastNDays = n, opt_dryRun = d\<rparr>
   = Inr (utc 2024 3 15 0 0 0, utc 2024 3 16 0 0 0)
   \<and> getOptionDateRange (utc 2024 3 15 10 0 0)
     \<lparr>opt_today = False, opt_yesterday = y, opt_lastNDays = None, opt_dryRun = d\<rparr>
   = Inr (utc 2024 3 14 0 0 0, utc 2024 3 15 0 0 0)
   \<and> getOptionDateRange (utc 2024 3 15 10 0 0)
     \<lparr>opt_today = False, opt_yesterday = y, opt_lastNDays = Some 3, opt_dryRun = d\<rparr>
   = Inr (utc 2024 3 12 0 0 0, utc 2024 3 15 0 0 0)
   \<and> (getOptionDateRange now options = Inr (s, e) \<longrightarrow> s mod ns_per_day = 0 \<and> e mod ns_per_day = 0)"
proof (intro conjI impI)
  show "getOptionDateRange (utc 2024 3 15 10 0 0)
     \<lparr>opt_today = True, opt_yesterday = y, opt_lastNDays = n, opt_dryRun = d\<rparr>
   = Inr (utc 2024 3 15 0 0 0, utc 2024 3 16 0 0 0)"
    by (simp add: utc_values getOptionDateRange_def startOfDay_def add_days_def ns_per_day_def)
  show "getOptionDateRange (utc 2024 3 15 10 0 0)
     \<lparr>opt_today = False, opt_yesterday = y, opt_lastNDays = None, opt_dryRun = d\<rparr>
   = Inr (utc 2024 3 14 0 0 0, utc 2024 3 15 0 0 0)"
    by (simp add: utc_values getOptionDateRange_def startOfDay_def days_before_def add_days_def ns_per_day_def)
  show "getOptionDateRange (utc 2024 3 15 10 0 0)
     \<lparr>opt_today = False, opt_yesterday = y, opt_lastNDays = Some 3, opt_dryRun = d\<rparr>
   = Inr (utc 2024 3 12 0 0 0, utc 2024 3 15 0 0 0)"
    by (simp add: utc_values getOptionDateRange_def startOfDay_def days_before_def add_days_def ns_per_day_def)
next
  assume "getOptionDateRange now options = Inr (s, e)"
  then show "s mod ns_per_day = 0" "e mod ns_per_day = 0"
    using getOptionDateRange_midnight by (simp_all add: mod_eq_0_iff_dvd)
qed

theorem date_range_selection_witness:
  "getOptionDateRange (utc 2024 3 15 10 0 0)
     \<lparr>opt_today = False, opt_yesterday = True, opt_lastNDays = Some 3, opt_dryRun = False\<rparr>
   = Inr (1710201600000000000, 1710460800000000000)
   \<and> (1710201600000000000 :: int) mod ns_per_day = 0 \<and> (1710460800000000000 :: int) mod ns_per_day = 0"
  using date_range_selection [where y = True and d = False and now = "utc 2024 3 15 10 0 0"
     and options = "\<lparr>opt_today = False, opt_yesterday = True, opt_lastNDays = Some 3, opt_dryRun = False\<rparr>"
     and s = 1710201600000000000 and e = 1710460800000000000]
  by (simp add: utc_values)

section \<open>Pagination of the work items\<close>

lemma match_marker_here_shape:
  "match_marker_here s = Some m \<Longrightarrow> marker_shape m"
  by (auto simp: match_marker_here_def marker_shape_def split: list.splits if_splits)

lemma search_marker_shape:
  "search_marker s = Some m \<Longrightarrow> marker_shape m"
  by (induction s) (auto split: option.splits dest: match_marker_here_shape)

lemma extractInternalId_shape:
  "extractInternalId t = Some m \<Longrightarrow> marker_shape m"
  by (simp add: extractInternalId_def search_marker_shape)

lemma marker_shape_truthy: "marker_shape m \<Longrightarrow> truthy (Some m)"
  by (auto simp: marker_shape_def truthy_def)

lemma set_workItemInternalIds:
  "set (workItemInternalIds items) =
     {m. \<exists>item \<in> set items. extractInternalId (item_text item) = Some m}"
proof -
  have "\<And>v. truthy v \<longleftrightarrow> (\<exists>m. v = Some m \<and> m \<noteq> [])"
    by (auto simp: truthy_def split: option.splits)
  then show ?thesis
    using extractInternalId_shape marker_shape_truthy
    by (fastforce simp: workItemInternalIds_def image_iff truthy_def split: option.splits)
qed

lemma getIssueWorkItems_loop_pages:
  assumes pages: "\<forall>j \<le> k. get issueId (j * limit) limit = Inr (pages j)"
    and full: "\<forall>j < k. limit \<le> length (pages j)"
    and short: "length (pages k) < limit"
  shows "s \<le> k \<Longrightarrow>
    getIssueWorkItems_loop get issueId items (s * limit) sent =
      Some (Inr (items @ concat (map pages [s..<Suc k])), sent @ map (\<lambda>j. j * limit) [s..<Suc k])"
proof (induction "k - s" arbitrary: s items sent)
  case 0
  then have "s = k" by simp
  with pages short show ?case
    by (subst getIssueWorkItems_loop.simps) simp
next
  case (Suc d)
  then have lt: "s < k" and le: "Suc s \<le> k" and d: "d = k - Suc s" by simp_all
  from pages lt have page: "get issueId (s * limit) limit = Inr (pages s)" by simp
  from full lt have "\<not> length (pages s) < limit" by (simp add: not_less)
  with page have
    "getIssueWorkItems_loop get issueId items (s * limit) sent =
       getIssueWorkItems_loop get issueId (items @ pages s) (Suc s * limit) (sent @ [s * limit])"
    by (subst getIssueWorkItems_loop.simps) (simp add: add.commute)
  also have "\<dots> = Some (Inr ((items @ pages s) @ concat (map pages [Suc s..<Suc k])),
       (sent @ [s * limit]) @ map (\<lambda>j. j * limit) [Suc s..<Suc k])"
    using Suc.hyps(1) [OF d le] .
  also have "\<dots> = Some (Inr (items @ concat (map pages [s..<Suc k])), sent @ map (\<lambda>j. j * limit) [s..<Suc k])"
    using lt by (simp add: upt_conv_Cons)
  finally show ?case .
qed

lemma getIssueWorkItems_pages:
  assumes "\<forall>j \<le> k. get issueId (j * limit) limit = Inr (pages j)"
    and "\<forall>j < k. limit \<le> length (pages j)"
    and "length (pages k) < limit"
  shows "getIssueWorkItems get issueId =
      Some (Inr (concat (map pages [0..<Suc k])), map (\<lambda>j. j * limit) [0..<Suc k])"
  using getIssueWorkItems_loop_pages [where s = 0 and items = "[]" and sent = "[]" and pages = pages and k = k and get = get and issueId = issueId] assms
  by (simp add: getIssueWorkItems_def)

lemma getIssueWorkItems_full_then_empty:
  assumes "length p1 = limit" "get issueId 0 limit = Inr p1" "get issueId limit limit = Inr []"
  shows "getIssueWorkItems get issueId = Some (Inr p1, [0, limit])"
proof -
  have "getIssueWorkItems get issueId =
      Some (Inr (concat (map (\<lambda>j. if j = 0 then p1 else []) [0..<Suc 1])), map (\<lambda>j. j * limit) [0..<Suc 1])"
    using assms by (intro getIssueWorkItems_pages) (auto simp: limit_def le_Suc_eq)
  then show ?thesis by (simp add: upt_rec)
qed

lemma getIssueWorkItems_loop_error:
  "get issueId skip limit = Inl e \<Longrightarrow>
   getIssueWorkItems_loop get issueId items skip sent = Some (Inl e, sent @ [skip])"
  by (subst getIssueWorkItems_loop.simps) simp

text \<open>A source whose pages are all full keeps the loop running for ever.\<close>

lemma getIssueWorkItems_loop_returns:
  assumes "getIssueWorkItems_loop get issueId items skip sent = Some y"
  shows "\<exists>j. \<forall>p. get issueId (skip + j * limit) limit = Inr p \<longrightarrow> length p < limit"
proof (rule getIssueWorkItems_loop.raw_induct
    [where P = "\<lambda>g i its sk sn r. \<exists>j. \<forall>p. g i (sk + j * limit) limit = Inr p \<longrightarrow> length p < limit",
     OF _ assms])
  fix loop g i its sk sn r
  assume IH: "\<And>g i its sk sn r. loop g i its sk sn = Some r \<Longrightarrow>
      \<exists>j. \<forall>p. g i (sk + j * limit) limit = Inr p \<longrightarrow> length p < limit"
    and body: "(case g i sk limit of
        Inl e \<Rightarrow> Some (Inl e, sn @ [sk])
      | Inr data \<Rightarrow>
          if length data < limit then Some (Inr (its @ data), sn @ [sk])
          else loop g i (its @ data) (sk + limit) (sn @ [sk])) = Some r"
  show "\<exists>j. \<forall>p. g i (sk + j * limit) limit = Inr p \<longrightarrow> length p < limit"
  proof (cases "g i sk limit")
    case (Inl e)
    then have "\<forall>p. g i (sk + 0 * limit) limit = Inr p \<longrightarrow> length p < limit" by simp
    then show ?thesis by blast
  next
    case (Inr data)
    show ?thesis
    proof (cases "length data < limit")
      case True
      with Inr have "\<forall>p. g i (sk + 0 * limit) limit = Inr p \<longrightarrow> length p < limit" by simp
      then show ?thesis by blast
    next
      case False
      with Inr body have "loop g i (its @ data) (sk + limit) (sn @ [sk]) = Some r"
        by simp
      from IH [OF this] obtain j where
        "\<forall>p. g i (sk + limit + j * limit) limit = Inr p \<longrightarrow> length p < limit" by blast
      then have "\<forall>p. g i (sk + Suc j * limit) limit = Inr p \<longrightarrow> length p < limit"
        by (simp add: add.assoc)
      then show ?thesis by blast
    qed
  qed
qed

lemma getIssueWorkItems_diverges:
  assumes "\<forall>j. \<exists>p. get issueId (j * limit) limit = Inr p \<and> limit \<le> length p"
  shows "getIssueWorkItems get issueId = None"
proof (cases "getIssueWorkItems get issueId")
  case None
  then show ?thesis .
next
  case (Some y)
  then obtain j where "\<forall>p. get issueId (0 + j * limit) limit = Inr p \<longrightarrow> length p < limit"
    unfolding getIssueWorkItems_def using getIssueWorkItems_loop_returns by blast
  with assms show ?thesis by (fastforce simp: not_less [symmetric])
qed


lemma index_issue_markers:
  "getIssueWorkItems get issueId = Some (Inr items, sent) \<Longrightarrow>
   index_issue get issueId =
     Some (Inr (issueId, {m. \<exists>item \<in> set items. extractInternalId (item_text item) = Some m}))"
  by (simp add: index_issue_def set_workItemInternalIds)

text \<open>
  Claim C5. The pages of an issue are requested one after the other, at the offsets 0,
  5000, 10000, ... with the fixed page size 5000; the requests go on as long as the page
  returned was full and stop at the first short page: when the pages 0 to k - 1 are full
  and page k is short, exactly these k + 1 requests are sent and the result is all their
  items, and when every page is full the loop never ends. In particular, a source that
  gives exactly 5000 items on the first page and none on the second is asked twice and
  indexed with the markers found on the first page; an item without a marker contributes
  nothing and is no error.
\<close>

theorem pagination:
  "((\<forall>j \<le> k. get issueId (j * limit) limit = Inr (pages j)) \<and> (\<forall>j < k. limit \<le> length (pages j))
      \<and> length (pages k) < limit
     \<longrightarrow> getIssueWorkItems get issueId =
           Some (Inr (concat (map pages [0..<Suc k])), map (\<lambda>j. j * limit) [0..<Suc k])
         \<and> index_issue get issueId =
           Some (Inr (issueId, {m. \<exists>item \<in> set (concat (map pages [0..<Suc k])).
                                     extractInternalId (item_text item) = Some m})))
   \<and> (length first = limit \<and> get issueId 0 limit = Inr first \<and> get issueId limit limit = Inr []
     \<longrightarrow> getIssueWorkItems get issueId = Some (Inr first, [0, limit])
         \<and> index_issue get issueId =
           Some (Inr (issueId, {m. \<exists>item \<in> set first. extractInternalId (item_text item) = Some m})))
   \<and> ((\<forall>j. \<exists>p. get' issueId' (j * limit) limit = Inr p \<and> limit \<le> length p)
     \<longrightarrow> getIssueWorkItems get' issueId' = None)
   \<and> limit = 5000"
proof (intro conjI impI)
  assume h: "(\<forall>j \<le> k. get issueId (j * limit) limit = Inr (pages j)) \<and> (\<forall>j < k. limit \<le> length (pages j))
      \<and> length (pages k) < limit"
  then show all: "getIssueWorkItems get issueId =
           Some (Inr (concat (map pages [0..<Suc k])), map (\<lambda>j. j * limit) [0..<Suc k])"
    by (intro getIssueWorkItems_pages) simp_all
  then show "index_issue get issueId =
           Some (Inr (issueId, {m. \<exists>item \<in> set (concat (map pages [0..<Suc k])).
                                     extractInternalId (item_text item) = Some m}))"
    by (rule index_issue_markers)
next
  assume h: "length first = limit \<and> get issueId 0 limit = Inr first \<and> get issueId limit limit = Inr []"
  then show two: "getIssueWorkItems get issueId = Some (Inr first, [0, limit])"
    by (intro getIssueWorkItems_full_then_empty) simp_all
  then show "index_issue get issueId =
           Some (Inr (issueId, {m. \<exists>item \<in> set first. extractInternalId (item_text item) = Some m}))"
    by (rule index_issue_markers)
next
  assume "\<forall>j. \<exists>p. get' issueId' (j * limit) limit = Inr p \<and> limit \<le> length p"
  then show "getIssueWorkItems get' issueId' = None"
    by (rule getIssueWorkItems_diverges)
next
  show "limit = 5000" by (simp add: limit_def)
qed

lemma extract_examples:
  "extractInternalId ''done [aaaaaaaaaaaaaaaaaaaaaaaa]'' = Some ''aaaaaaaaaaaaaaaaaaaaaaaa''"
  "extractInternalId ''manual entry'' = None"
  by code_simp+

theorem pagination_witness:
  "getIssueWorkItems
     (\<lambda>i skip n. if skip = 0
        then Inr (replicate 4999 \<lparr>wi_text = Some ''manual entry'', wi_date = Date ''2024-03-13''\<rparr>
                  @ [\<lparr>wi_text = Some ''done [aaaaaaaaaaaaaaaaaaaaaaaa]'', wi_date = Date ''2024-03-14''\<rparr>])
        else Inr []) ''ABC-1''
   = Some (Inr (replicate 4999 \<lparr>wi_text = Some ''manual entry'', wi_date = Date ''2024-03-13''\<rparr>
                  @ [\<lparr>wi_text = Some ''done [aaaaaaaaaaaaaaaaaaaaaaaa]'', wi_date = Date ''2024-03-14''\<rparr>]),
           [0, 5000])
   \<and> index_issue
     (\<lambda>i skip n. if skip = 0
        then Inr (replicate 4999 \<lparr>wi_text = Some ''manual entry'', wi_date = Date ''2024-03-13''\<rparr>
                  @ [\<lparr>wi_text = Some ''done [aaaaaaaaaaaaaaaaaaaaaaaa]'', wi_date = Date ''2024-03-14''\<rparr>])
        else Inr []) ''ABC-1''
   = Some (Inr (''ABC-1'', {''aaaaaaaaaaaaaaaaaaaaaaaa''}))
   \<and> getIssueWorkItems
     (\<lambda>i skip n. Inr (replicate n \<lparr>wi_text = None, wi_date = Date ''2024-03-13''\<rparr>)) ''ABC-1'' = None"
proof -
  define junk where "junk = \<lparr>wi_text = Some ''manual entry'', wi_date = Date ''2024-03-13''\<rparr>"
  define marked where "marked = \<lparr>wi_text = Some ''done [aaaaaaaaaaaaaaaaaaaaaaaa]'', wi_date = Date ''2024-03-14''\<rparr>"
  define p1 where "p1 = replicate 4999 junk @ [marked]"
  define get :: "string \<Rightarrow> nat \<Rightarrow> nat \<Rightarrow> error + work_item list"
    where "get = (\<lambda>i skip n. if skip = 0 then Inr p1 else Inr [])"
  define get' :: "string \<Rightarrow> nat \<Rightarrow> nat \<Rightarrow> error + work_item list"
    where "get' = (\<lambda>i skip n. Inr (replicate n \<lparr>wi_text = None, wi_date = Date ''2024-03-13''\<rparr>))"
  define pages where "pages = (\<lambda>j::nat. if j = 0 then p1 else [])"
  have h1: "\<forall>j \<le> 1. get ''ABC-1'' (j * limit) limit = Inr (pages j)"
    by (simp add: get_def pages_def limit_def)
  have h2: "\<forall>j < 1. limit \<le> length (pages j)"
    by (simp add: pages_def p1_def limit_def)
  have h3: "length (pages 1) < limit"
    by (simp add: pages_def limit_def)
  have h4: "length p1 = limit \<and> get ''ABC-1'' 0 limit = Inr p1 \<and> get ''ABC-1'' limit limit = Inr []"
    by (simp add: p1_def get_def limit_def)
  have h5: "\<forall>j. \<exists>p. get' ''ABC-1'' (j * limit) limit = Inr p \<and> limit \<le> length p"
    by (simp add: get'_def)
  have m: "{m. \<exists>item \<in> set p1. extractInternalId (item_text item) = Some m} = {''aaaaaaaaaaaaaaaaaaaaaaaa''}"
    by (auto simp: p1_def junk_def marked_def item_text_def extract_examples)
  note inst = pagination [where k = 1 and get = get and issueId = "''ABC-1''" and pages = pages
      and first = p1 and get' = get' and issueId' = "''ABC-1''"]
  from inst h1 h2 h3 have "getIssueWorkItems get ''ABC-1'' =
      Some (Inr (concat (map pages [0..<Suc 1])), map (\<lambda>j. j * limit) [0..<Suc 1])"
    by blast
  moreover from inst h4 have "getIssueWorkItems get ''ABC-1'' = Some (Inr p1, [0, limit])"
    and "index_issue get ''ABC-1'' =
      Some (Inr (''ABC-1'', {m. \<exists>item \<in> set p1. extractInternalId (item_text item) = Some m}))"
    by blast+
  moreover from inst h5 have "getIssueWorkItems get' ''ABC-1'' = None"
    by blast
  ultimately have "getIssueWorkItems get ''ABC-1'' = Some (Inr p1, [0, limit])
      \<and> index_issue get ''ABC-1'' = Some (Inr (''ABC-1'', {''aaaaaaaaaaaaaaaaaaaaaaaa''}))
      \<and> getIssueWorkItems get' ''ABC-1'' = None"
    by (simp only: m simp_thms)
  then show ?thesis
    unfolding get_def get'_def p1_def junk_def marked_def limit_def .
qed

section \<open>The marker of a created work item\<close>

lemma match_marker_here_not_bracket:
  "c \<noteq> CHR ''['' \<Longrightarrow> match_marker_here (c # r) = None"
  by (simp add: match_marker_here_def)

lemma space_not_marker_char: "\<not> is_lower_alnum (CHR '' '')" "CHR '' '' \<noteq> CHR '']''"
  by (simp_all add: is_lower_alnum_def is_digit_def code_def)

lemma match_marker_here_before_space:
  assumes "s \<noteq> []"
  shows "match_marker_here (s @ CHR '' '' # t) = match_marker_here s"
proof -
  from assms obtain c r where s: "s = c # r" by (cases s) auto
  show ?thesis
  proof (cases "25 \<le> length r")
    case True
    then show ?thesis by (simp add: s match_marker_here_def nth_append)
  next
    case short: False
    have "\<not> (list_all is_lower_alnum (take 24 (r @ CHR '' '' # t)) \<and> (r @ CHR '' '' # t) ! 24 = CHR '']'')"
    proof (cases "length r = 24")
      case True
      then show ?thesis by (simp add: nth_append space_not_marker_char)
    next
      case False
      with short have "length r < 24" by simp
      then have "CHR '' '' \<in> set (take 24 (r @ CHR '' '' # t))"
        by (simp add: take_Cons' )
      then show ?thesis using space_not_marker_char(1) by (auto simp: list_all_iff)
    qed
    with short show ?thesis by (simp add: s match_marker_here_def)
  qed
qed

lemma match_marker_here_bracketed:
  "marker_shape m \<Longrightarrow> match_marker_here (CHR ''['' # m @ CHR '']'' # t) = Some m"
  by (simp add: match_marker_here_def marker_shape_def nth_append)

lemma search_marker_create_description:
  assumes "marker_shape ident"
  shows "search_marker (create_description d ident) =
     (case search_marker d of Some m \<Rightarrow> Some m | None \<Rightarrow> Some ident)"
proof (induction d)
  case Nil
  show ?case
    using match_marker_here_bracketed [OF assms, of "[]"]
    by (simp add: create_description_def match_marker_here_not_bracket)
next
  case (Cons c r)
  have "match_marker_here ((c # r) @ CHR '' '' # CHR ''['' # ident @ '']'') = match_marker_here (c # r)"
    by (rule match_marker_here_before_space) simp
  with Cons show ?case
    by (simp add: create_description_def split: option.splits)
qed

lemma search_marker_dropWhile_space:
  "search_marker (dropWhile is_js_space s) = search_marker s"
proof (induction s)
  case Nil
  show ?case by simp
next
  case (Cons c r)
  have "is_js_space c \<Longrightarrow> c \<noteq> CHR ''[''"
    by (auto simp: is_js_space_def code_def)
  with Cons show ?case
    by (simp add: match_marker_here_not_bracket)
qed

lemma trim_ends_with_bracket:
  "trim (s @ '']'') = dropWhile is_js_space (s @ '']'')"
proof -
  have nsp: "\<not> is_js_space (CHR '']'')"
    by (simp add: is_js_space_def code_def)
  have "\<exists>u. dropWhile is_js_space (s @ '']'') = u @ '']''"
  proof (induction s)
    case Nil
    show ?case using nsp by simp
  next
    case (Cons c r)
    then show ?case by (cases "is_js_space c") auto
  qed
  then obtain u where "dropWhile is_js_space (s @ '']'') = u @ '']''" by blast
  then show ?thesis using nsp by (simp add: trim_def)
qed

lemma extractInternalId_create_description:
  assumes "marker_shape ident"
  shows "extractInternalId (create_description d ident) =
     (case search_marker d of Some m \<Rightarrow> Some m | None \<Rightarrow> Some ident)"
proof -
  have "create_description d ident = (d @ '' ['' @ ident) @ '']''"
    by (simp add: create_description_def)
  then have "trim (create_description d ident) = dropWhile is_js_space (create_description d ident)"
    using trim_ends_with_bracket [of "d @ '' ['' @ ident"] by simp
  then show ?thesis
    using search_marker_create_description [OF assms]
    by (simp add: extractInternalId_def search_marker_dropWhile_space)
qed

text \<open>
  The round trip holds for a description without a bracketed token of its own: the marker
  found in the created text is then the identifier of the entry.
\<close>

lemma extract_round_trip_plain:
  "marker_shape ident \<Longrightarrow> search_marker d = None \<Longrightarrow>
   extractInternalId (create_description d ident) = Some ident"
  by (simp add: extractInternalId_create_description)

text \<open>
  Claim C3. The claim says that for every identifier of the 24-character shape and every
  description, the marker extracted from the created text is the identifier. The extraction
  takes the leftmost bracketed token, so for the description
  \<^verbatim>\<open>see [bbbbbbbbbbbbbbbbbbbbbbbb]\<close> and the identifier
  \<^verbatim>\<open>aaaaaaaaaaaaaaaaaaaaaaaa\<close> it returns the token of the description, not the
  identifier.
\<close>

theorem extraction_round_trip_fails:
  "marker_shape ''aaaaaaaaaaaaaaaaaaaaaaaa''
   \<and> create_description ''see [bbbbbbbbbbbbbbbbbbbbbbbb]'' ''aaaaaaaaaaaaaaaaaaaaaaaa''
       = ''see [bbbbbbbbbbbbbbbbbbbbbbbb] [aaaaaaaaaaaaaaaaaaaaaaaa]''
   \<and> extractInternalId (create_description ''see [bbbbbbbbbbbbbbbbbbbbbbbb]'' ''aaaaaaaaaaaaaaaaaaaaaaaa'')
       = Some ''bbbbbbbbbbbbbbbbbbbbbbbb''"
  by code_simp

section \<open>The create call and the loop\<close>

lemma postIssueWorkItem_rejects:
  "search_marker (cd_description data) = None \<Longrightarrow>
   postIssueWorkItem issueId data w = (w, Some AssertionError)"
  by (simp add: postIssueWorkItem_def)

lemma tracker_post_error:
  "tracker_post issueId body w = (w', Some e) \<Longrightarrow> e = HttpError"
  by (auto simp: tracker_post_def Let_def split: option.splits)

lemma postIssueWorkItem_error:
  "postIssueWorkItem issueId data w = (w', Some e) \<Longrightarrow>
   (e = AssertionError \<and> search_marker (cd_description data) = None \<and> w' = w)
   \<or> (e = HttpError \<and> search_marker (cd_description data) \<noteq> None)"
  by (auto simp: postIssueWorkItem_def split: if_splits dest: tracker_post_error)

lemma sync_entry_no_assertion:
  assumes "marker_shape (te_id entry)"
  shows "snd (sync_entry options workTypes byIssueId entry st) \<noteq> Some AssertionError"
proof -
  have "search_marker (create_description (te_description entry) (te_id entry)) \<noteq> None"
    using search_marker_create_description [OF assms] by (simp split: option.splits)
  then show ?thesis
    by (auto simp: sync_entry_def Let_def split: option.splits if_splits prod.splits
             dest!: postIssueWorkItem_error)
qed

text \<open>
  Claim C8. A create call that is not a dry run first tests the description against the
  marker pattern: when the description has no bracketed token of 24 lower-case letters and
  digits, the call throws an \<^verbatim>\<open>AssertionError\<close> and the issue tracker has received
  nothing; otherwise the request is sent. When the identifier of the entry has that shape,
  the description that \<^verbatim>\<open>sync\<close> builds passes the test, and the loop body never
  throws an \<^verbatim>\<open>AssertionError\<close>.
\<close>

theorem create_precondition:
  "(search_marker (cd_description data) = None \<longrightarrow>
      postIssueWorkItem issueId data w = (w, Some AssertionError))
   \<and> (search_marker (cd_description data') \<noteq> None \<longrightarrow>
      tr_posted (fst (postIssueWorkItem issueId data' w)) =
        tr_posted w @ [(issueId, \<lparr>pb_duration_minutes = cd_durationMinutes data',
                                   pb_text = cd_description data', pb_date = cd_date data',
                                   pb_type_id = (if truthy_value (cd_workTypeId data') then cd_workTypeId data'
                                                 else None)\<rparr>)]
      \<and> snd (postIssueWorkItem issueId data' w) \<noteq> Some AssertionError)
   \<and> (marker_shape (te_id entry) \<longrightarrow>
      search_marker (create_description (te_description entry) (te_id entry)) \<noteq> None
      \<and> snd (sync_entry options workTypes byIssueId entry st) \<noteq> Some AssertionError)"
proof (intro conjI impI)
  assume "search_marker (cd_description data) = None"
  then show "postIssueWorkItem issueId data w = (w, Some AssertionError)"
    by (rule postIssueWorkItem_rejects)
next
  assume m: "search_marker (cd_description data') \<noteq> None"
  then show "tr_posted (fst (postIssueWorkItem issueId data' w)) =
        tr_posted w @ [(issueId, \<lparr>pb_duration_minutes = cd_durationMinutes data',
                                   pb_text = cd_description data', pb_date = cd_date data',
                                   pb_type_id = (if truthy_value (cd_workTypeId data') then cd_workTypeId data'
                                                 else None)\<rparr>)]"
    by (auto simp: postIssueWorkItem_def tracker_post_def Let_def split: option.splits)
  from m show "snd (postIssueWorkItem issueId data' w) \<noteq> Some AssertionError"
    by (auto simp: postIssueWorkItem_def tracker_post_def Let_def split: option.splits)
next
  assume s: "marker_shape (te_id entry)"
  then show "search_marker (create_description (te_description entry) (te_id entry)) \<noteq> None"
    using search_marker_create_description [of "te_id entry" "te_description entry"]
    by (simp split: option.splits)
  from s show "snd (sync_entry options workTypes byIssueId entry st) \<noteq> Some AssertionError"
    by (rule sync_entry_no_assertion)
qed


theorem create_precondition_witness:
  "postIssueWorkItem ''ABC-1''
     \<lparr>cd_description = ''fix login [short]'', cd_date = Date ''2024-03-14T09:00:00Z'',
      cd_durationMinutes = Some 90, cd_workTypeId = None\<rparr>
     \<lparr>tr_issues = [''ABC-1'' \<mapsto> []], tr_workItemTypes = [], tr_posted = []\<rparr>
   = (\<lparr>tr_issues = [''ABC-1'' \<mapsto> []], tr_workItemTypes = [], tr_posted = []\<rparr>, Some AssertionError)
   \<and> tr_posted (fst (postIssueWorkItem ''ABC-1''
     \<lparr>cd_description = ''fix login [aaaaaaaaaaaaaaaaaaaaaaaa]'', cd_date = Date ''2024-03-14T09:00:00Z'',
      cd_durationMinutes = Some 90, cd_workTypeId = None\<rparr>
     \<lparr>tr_issues = [''ABC-1'' \<mapsto> []], tr_workItemTypes = [], tr_posted = []\<rparr>))
   = [(''ABC-1'', \<lparr>pb_duration_minutes = Some 90, pb_text = ''fix login [aaaaaaaaaaaaaaaaaaaaaaaa]'',
                   pb_date = Date ''2024-03-14T09:00:00Z'', pb_type_id = None\<rparr>)]
   \<and> snd (sync_entry \<lparr>opt_today = False, opt_yesterday = False, opt_lastNDays = None, opt_dryRun = False\<rparr>
          Map.empty [''ABC-1'' \<mapsto> {}]
          \<lparr>te_id = ''aaaaaaaaaaaaaaaaaaaaaaaa'', te_description = ''fix login'', te_type = None,
           te_issueId = Some ''ABC-1'', te_startDate = Some (Date ''2024-03-14T09:00:00Z''),
           te_durationMinutes = Some 90\<rparr>
          \<lparr>rs_tracker = \<lparr>tr_issues = [''ABC-1'' \<mapsto> []], tr_workItemTypes = [], tr_posted = []\<rparr>,
           rs_log = []\<rparr>) \<noteq> Some AssertionError"
proof -
  have h1: "search_marker ''fix login [short]'' = None" by code_simp
  have h2: "search_marker ''fix login [aaaaaaaaaaaaaaaaaaaaaaaa]'' \<noteq> None" by code_simp
  have h3: "marker_shape ''aaaaaaaaaaaaaaaaaaaaaaaa''" by code_simp
  show ?thesis
    using h1 h2 h3
      create_precondition [where issueId = "''ABC-1''"
        and data = "\<lparr>cd_description = ''fix login [short]'', cd_date = Date ''2024-03-14T09:00:00Z'',
                      cd_durationMinutes = Some 90, cd_workTypeId = None\<rparr>"
        and data' = "\<lparr>cd_description = ''fix login [aaaaaaaaaaaaaaaaaaaaaaaa]'',
                      cd_date = Date ''2024-03-14T09:00:00Z'',
                      cd_durationMinutes = Some 90, cd_workTypeId = None\<rparr>"
        and w = "\<lparr>tr_issues = [''ABC-1'' \<mapsto> []], tr_workItemTypes = [], tr_posted = []\<rparr>"
        and entry = "\<lparr>te_id = ''aaaaaaaaaaaaaaaaaaaaaaaa'', te_description = ''fix login'', te_type = None,
           te_issueId = Some ''ABC-1'', te_startDate = Some (Date ''2024-03-14T09:00:00Z''),
           te_durationMinutes = Some 90\<rparr>"
        and options = "\<lparr>opt_today = False, opt_yesterday = False, opt_lastNDays = None, opt_dryRun = False\<rparr>"
        and workTypes = Map.empty and byIssueId = "[''ABC-1'' \<mapsto> {}]"
        and st = "\<lparr>rs_tracker = \<lparr>tr_issues = [''ABC-1'' \<mapsto> []], tr_workItemTypes = [], tr_posted = []\<rparr>,
           rs_log = []\<rparr>"]
    by (simp add: or_null_def truthy_def)
qed

lemma sync_entries_append:
  "sync_entries options workTypes byIssueId (xs @ ys) st =
     (case sync_entries options workTypes byIssueId xs st of
        (st', Some e) \<Rightarrow> (st', Some e)
      | (st', None) \<Rightarrow> sync_entries options workTypes byIssueId ys st')"
  by (induction xs arbitrary: st) (auto split: prod.splits option.splits)

lemma sync_entry_no_startDate:
  "te_startDate entry = None \<Longrightarrow>
   sync_entry options workTypes byIssueId entry st = (st, Some TypeError)"
  by (simp add: sync_entry_def)

text \<open>
  Claim C10. For an entry without a start date the loop body throws a \<^verbatim>\<open>TypeError\<close>
  at its first statement, before the test of the issue identifier: nothing is printed and
  nothing is sent for the entry, and the entries after it are not processed, whatever
  they are.
\<close>

theorem absent_startDate_aborts:
  "te_startDate entry = None \<longrightarrow>
     sync_entry options workTypes byIssueId entry st = (st, Some TypeError)
     \<and> sync_entries options workTypes byIssueId (entry # rest) st = (st, Some TypeError)
     \<and> sync_entries options workTypes byIssueId (before @ entry # rest) st
         = sync_entries options workTypes byIssueId (before @ [entry]) st
     \<and> snd (sync_entries options workTypes byIssueId (before @ entry # rest) st) \<noteq> None"
proof (intro impI conjI)
  assume a: "te_startDate entry = None"
  then show "sync_entry options workTypes byIssueId entry st = (st, Some TypeError)"
    by (rule sync_entry_no_startDate)
  from a show "sync_entries options workTypes byIssueId (entry # rest) st = (st, Some TypeError)"
    by (simp add: sync_entry_no_startDate)
  from a show "sync_entries options workTypes byIssueId (before @ entry # rest) st
         = sync_entries options workTypes byIssueId (before @ [entry]) st"
    by (simp add: sync_entries_append sync_entry_no_startDate split: prod.splits option.splits)
  from a show "snd (sync_entries options workTypes byIssueId (before @ entry # rest) st) \<noteq> None"
    by (simp add: sync_entries_append sync_entry_no_startDate split: prod.splits option.splits)
qed

theorem absent_startDate_aborts_witness:
  "sync_entries \<lparr>opt_today = False, opt_yesterday = False, opt_lastNDays = None, opt_dryRun = False\<rparr>
      Map.empty Map.empty
      [\<lparr>te_id = ''aaaaaaaaaaaaaaaaaaaaaaaa'', te_description = ''no start'', te_type = None,
        te_issueId = None, te_startDate = None, te_durationMinutes = None\<rparr>,
       \<lparr>te_id = ''bbbbbbbbbbbbbbbbbbbbbbbb'', te_description = ''no issue'', te_type = None,
        te_issueId = None, te_startDate = Some (Date ''2024-03-14T09:00:00Z''),
        te_durationMinutes = Some 90\<rparr>]
      \<lparr>rs_tracker = \<lparr>tr_issues = Map.empty, tr_workItemTypes = [], tr_posted = []\<rparr>, rs_log = []\<rparr>
   = (\<lparr>rs_tracker = \<lparr>tr_issues = Map.empty, tr_workItemTypes = [], tr_posted = []\<rparr>, rs_log = []\<rparr>,
      Some TypeError)"
  using absent_startDate_aborts [where
      entry = "\<lparr>te_id = ''aaaaaaaaaaaaaaaaaaaaaaaa'', te_description = ''no start'', te_type = None,
        te_issueId = None, te_startDate = None, te_durationMinutes = None\<rparr>"
      and rest = "[\<lparr>te_id = ''bbbbbbbbbbbbbbbbbbbbbbbb'', te_description = ''no issue'', te_type = None,
        te_issueId = None, te_startDate = Some (Date ''2024-03-14T09:00:00Z''),
        te_durationMinutes = Some 90\<rparr>]"
      and before = "[]"
      and options = "\<lparr>opt_today = False, opt_yesterday = False, opt_lastNDays = None, opt_dryRun = False\<rparr>"
      and workTypes = Map.empty and byIssueId = Map.empty
      and st = "\<lparr>rs_tracker = \<lparr>tr_issues = Map.empty, tr_workItemTypes = [], tr_posted = []\<rparr>, rs_log = []\<rparr>"]
  by simp

section \<open>A run against the issue tracker\<close>

text \<open>Against the issue tracker of the model the paging always ends, with all the items.\<close>

lemma tracker_loop_all:
  assumes "tr_issues w issueId = Some issued"
  shows "\<exists>sent'. getIssueWorkItems_loop (tracker_get w) issueId items skip sent
           = Some (Inr (items @ drop skip issued), sent')"
proof (induction "length issued - skip" arbitrary: items skip sent rule: less_induct)
  case less
  let ?page = "take limit (drop skip issued)"
  have get: "tracker_get w issueId skip limit = Inr ?page"
    using assms by (simp add: tracker_get_def)
  show ?case
  proof (cases "length ?page < limit")
    case True
    then have "?page = drop skip issued" by (simp add: min_def split: if_splits)
    with get True show ?thesis
      by (subst getIssueWorkItems_loop.simps) simp
  next
    case False
    then have long: "limit \<le> length issued - skip" by (simp add: min_def split: if_splits)
    have pos: "0 < limit" by (simp add: limit_def)
    from long pos have "length issued - (skip + limit) < length issued - skip" by simp
    from less [OF this, of "items @ ?page" "sent @ [skip]"] obtain sent' where
      "getIssueWorkItems_loop (tracker_get w) issueId (items @ ?page) (skip + limit) (sent @ [skip])
         = Some (Inr ((items @ ?page) @ drop (skip + limit) issued), sent')" by blast
    moreover have "?page @ drop (skip + limit) issued = drop skip issued"
      by (metis add.commute append_take_drop_id drop_drop)
    ultimately have "getIssueWorkItems_loop (tracker_get w) issueId (items @ ?page) (skip + limit) (sent @ [skip])
         = Some (Inr (items @ drop skip issued), sent')" by simp
    with get False show ?thesis
      by (subst getIssueWorkItems_loop.simps) simp
  qed
qed

lemma tracker_getIssueWorkItems:
  "tr_issues w issueId = Some issued \<Longrightarrow>
   \<exists>sent. getIssueWorkItems (tracker_get w) issueId = Some (Inr issued, sent)"
  using tracker_loop_all [of w issueId issued "[]" 0 "[]"]
  by (simp add: getIssueWorkItems_def)

lemma tracker_getIssueWorkItems_unknown:
  "tr_issues w issueId = None \<Longrightarrow>
   getIssueWorkItems (tracker_get w) issueId = Some (Inl HttpError, [0])"
  by (simp add: getIssueWorkItems_def getIssueWorkItems_loop_error tracker_get_def)

text \<open>The markers that the issue tracker holds for an issue.\<close>

lemma tracker_index_issue:
  "tr_issues w issueId = Some issued \<Longrightarrow>
   index_issue (tracker_get w) issueId = Some (Inr (issueId, set (workItemInternalIds issued)))"
  using tracker_getIssueWorkItems [of w issueId issued]
  by (auto simp: index_issue_def)

lemma tracker_index_issue_unknown:
  "tr_issues w issueId = None \<Longrightarrow> index_issue (tracker_get w) issueId = Some (Inl HttpError)"
  by (simp add: index_issue_def tracker_getIssueWorkItems_unknown)

lemma promise_all_tracker:
  assumes "\<forall>i \<in> set ids. tr_issues w i \<noteq> None"
  shows "promise_all (map (index_issue (tracker_get w)) ids)
     = Some (Inr (map (\<lambda>i. (i, set (workItemInternalIds (the (tr_issues w i))))) ids))"
  using assms
proof (induction ids)
  case Nil
  show ?case by simp
next
  case (Cons i ids)
  then obtain issued where "tr_issues w i = Some issued" by auto
  with Cons show ?case by (simp add: tracker_index_issue)
qed

lemma promise_all_tracker_unknown:
  assumes "\<exists>i \<in> set ids. tr_issues w i = None"
  shows "promise_all (map (index_issue (tracker_get w)) ids) = Some (Inl HttpError)"
  using assms
proof (induction ids)
  case Nil
  then show ?case by simp
next
  case (Cons i ids)
  show ?case
  proof (cases "tr_issues w i")
    case None
    then show ?thesis by (simp add: tracker_index_issue_unknown)
  next
    case (Some issued)
    with Cons show ?thesis by (simp add: tracker_index_issue)
  qed
qed

lemma new_Map_keys:
  "distinct ids \<Longrightarrow> new_Map (map (\<lambda>i. (i, f i)) ids) = (\<lambda>i. if i \<in> set ids then Some (f i) else None)"
proof -
  have "foldl (\<lambda>m (k, v). m(k \<mapsto> v)) m0 (map (\<lambda>i. (i, f i)) ids)
      = (\<lambda>i. if i \<in> set ids then Some (f i) else m0 i)" for m0
    by (induction ids arbitrary: m0) (auto simp: fun_eq_iff)
  then show ?thesis by (simp add: new_Map_def)
qed

lemma distinct_getUniqueBy: "distinct (getUniqueBy arr keyFn)"
  by (simp add: getUniqueBy_def)

lemma set_getUniqueBy:
  "set (getUniqueBy arr keyFn) = {k. \<exists>x \<in> set arr. keyFn x = Some k \<and> k \<noteq> []}"
  by (force simp: getUniqueBy_def truthy_def image_iff split: option.splits)

lemma unique_issue_ids:
  "set (getUniqueBy (filter (\<lambda>entry. truthy (te_issueId entry)) timeEntries) te_issueId)
     = issue_ids timeEntries"
proof -
  have "filter truthy (map te_issueId (filter (\<lambda>entry. truthy (te_issueId entry)) timeEntries))
      = filter truthy (map te_issueId timeEntries)"
    by (induction timeEntries) auto
  then show ?thesis by (simp add: getUniqueBy_def issue_ids_def)
qed

lemma workItemsByIssueId_tracker:
  assumes "\<forall>i \<in> issue_ids timeEntries. tr_issues w i \<noteq> None"
  shows "workItemsByIssueId (tracker_get w)
           (getUniqueBy (filter (\<lambda>entry. truthy (te_issueId entry)) timeEntries) te_issueId)
         = Some (Inr (tracker_index w timeEntries))"
proof -
  let ?ids = "getUniqueBy (filter (\<lambda>entry. truthy (te_issueId entry)) timeEntries) te_issueId"
  have "promise_all (map (index_issue (tracker_get w)) ?ids)
     = Some (Inr (map (\<lambda>i. (i, set (workItemInternalIds (the (tr_issues w i))))) ?ids))"
    using assms by (intro promise_all_tracker) (simp add: unique_issue_ids)
  moreover have "(\<lambda>i. if i \<in> issue_ids timeEntries
        then Some (set (workItemInternalIds (the (tr_issues w i)))) else None)
      = tracker_index w timeEntries"
    using assms by (auto simp: tracker_index_def fun_eq_iff split: option.splits)
  ultimately show ?thesis
    by (simp add: workItemsByIssueId_def new_Map_keys distinct_getUniqueBy unique_issue_ids)
qed

lemma workItemsByIssueId_tracker_unknown:
  assumes "\<exists>i \<in> issue_ids timeEntries. tr_issues w i = None"
  shows "workItemsByIssueId (tracker_get w)
           (getUniqueBy (filter (\<lambda>entry. truthy (te_issueId entry)) timeEntries) te_issueId)
         = Some (Inl HttpError)"
  using assms promise_all_tracker_unknown [of _ w]
  by (simp add: workItemsByIssueId_def unique_issue_ids)


lemma sync_on_tracker:
  assumes "getOptionDateRange now options = Inr (s, e)"
    and "clockify (s, e) = Inr raw"
    and "map_createTimeEntry (filter be_billable raw) = Inr timeEntries"
    and "\<forall>i \<in> issue_ids timeEntries. tr_issues w i \<noteq> None"
  shows "sync options now clockify w =
     Some (sync_entries options (getAllWorkItemTypes w) (tracker_index w timeEntries) timeEntries
             (print (LogSyncing s e)
                \<lparr>rs_tracker = w, rs_log = (if opt_dryRun options then [LogDryRun] else [])\<rparr>))"
  using assms(1-3) workItemsByIssueId_tracker [OF assms(4)]
  by (simp add: sync_def getBillableEntries_def)

section \<open>A run on the example data\<close>

lemma lower_designators:
  "lower_char (CHR ''P'') = CHR ''p''" "lower_char (CHR ''T'') = CHR ''t''"
  "lower_char (CHR ''Y'') = CHR ''y''" "lower_char (CHR ''M'') = CHR ''m''"
  "lower_char (CHR ''W'') = CHR ''w''" "lower_char (CHR ''D'') = CHR ''d''"
  "lower_char (CHR ''H'') = CHR ''h''" "lower_char (CHR ''S'') = CHR ''s''"
  by code_simp+

lemmas duration_eval =
  entry_durationMinutes_def Duration_from_def parse_duration_def split_sign_def
  is_designator_def lower_designators code_def date_unit_def time_unit_def is_digit_def
  digits_value_def valid_duration_def total_minutes_def unit_value_def time_value_def
  has_fraction_def

lemma bit_length_examples:
  "bit_length 60000000000 = 36" "bit_length 5400000000000 = 43"
  "bit_length 45000000000 = 36" "bit_length 300000000000 = 39" "bit_length 1000000000 = 30"
  by simp_all

text \<open>
  Ninety minutes, three quarters of a minute and five minutes are doubles; a sixtieth of a
  minute is not, and the number for one second is the double next to it.
\<close>

lemma nearest_double_examples:
  "nearest_double 5400000000000 60000000000 = 90"
  "nearest_double 45000000000 60000000000 = 3 / 4"
  "nearest_double 300000000000 60000000000 = 5"
  "nearest_double 1000000000 60000000000 = 4803839602528529 / 2 ^ 58"
  by (simp_all add: nearest_double_def bit_length_examples pow2_def round_half_even_def Let_def)

lemma duration_examples:
  "entry_durationMinutes (Some ''PT1H30M'') = Inr (Some 90)"
  "entry_durationMinutes (Some ''PT45S'') = Inr (Some (3 / 4))"
  "entry_durationMinutes (Some ''-PT5M'') = Inr (Some (- 5))"
  "entry_durationMinutes (Some ''PT1S'') = Inr (Some (4803839602528529 / 2 ^ 58))"
  "entry_durationMinutes (Some ''1h30'') = Inl RangeError"
  "entry_durationMinutes (Some ''P1M'') = Inl RangeError"
  "entry_durationMinutes (Some []) = Inr None"
  "entry_durationMinutes None = Inr None"
  by (simp_all add: duration_eval nearest_double_examples)

lemma string_examples:
  "trim (toLowerCase ''Development'') = ''development''"
  "extractIssueId ''ABC-1 Login page'' = Some ''ABC-1''"
  by code_simp+

lemma createTimeEntry_billable:
  "createTimeEntry (billable ident description) = Inr (normalized ident description)"
  by (simp add: createTimeEntry_def duration_examples entry_type_def entry_issueId_def
      entry_startDate_def string_examples or_null_def truthy_def)

lemma range_default_example:
  "getOptionDateRange (utc 2024 3 15 10 0 0) \<lparr>opt_today = False, opt_yesterday = y,
      opt_lastNDays = None, opt_dryRun = d\<rparr>
     = Inr (1710374400000000000, 1710460800000000000)"
  by (simp add: utc_values getOptionDateRange_def startOfDay_def days_before_def add_days_def
      ns_per_day_def)

lemma issue_ids_normalized: "issue_ids [normalized ident description] = {''ABC-1''}"
  by (simp add: issue_ids_def truthy_def)

lemma workTypes_example:
  "tr_workItemTypes w = [\<lparr>wt_id = ''12-3'', wt_name = ''Development''\<rparr>] \<Longrightarrow>
   getAllWorkItemTypes w = [''development'' \<mapsto> ''12-3'']"
  by (simp add: getAllWorkItemTypes_def string_examples)

lemma sync_example:
  assumes "tr_issues w ''ABC-1'' = Some issued"
    and "tr_workItemTypes w = [\<lparr>wt_id = ''12-3'', wt_name = ''Development''\<rparr>]"
  shows "sync \<lparr>opt_today = False, opt_yesterday = y, opt_lastNDays = None, opt_dryRun = d\<rparr>
           (utc 2024 3 15 10 0 0) (\<lambda>r. Inr [billable ident description]) w
     = Some (sync_entry \<lparr>opt_today = False, opt_yesterday = y, opt_lastNDays = None, opt_dryRun = d\<rparr>
               [''development'' \<mapsto> ''12-3'']
               [''ABC-1'' \<mapsto> set (workItemInternalIds issued)]
               (normalized ident description)
               \<lparr>rs_tracker = w,
                rs_log = (if d then [LogDryRun] else [])
                         @ [LogSyncing 1710374400000000000 1710460800000000000]\<rparr>)"
proof -
  have idx: "tracker_index w [normalized ident description]
      = [''ABC-1'' \<mapsto> set (workItemInternalIds issued)]"
    using assms(1) by (auto simp: tracker_index_def issue_ids_normalized fun_eq_iff)
  have "sync \<lparr>opt_today = False, opt_yesterday = y, opt_lastNDays = None, opt_dryRun = d\<rparr>
           (utc 2024 3 15 10 0 0) (\<lambda>r. Inr [billable ident description]) w
     = Some (sync_entries \<lparr>opt_today = False, opt_yesterday = y, opt_lastNDays = None, opt_dryRun = d\<rparr>
               (getAllWorkItemTypes w) (tracker_index w [normalized ident description])
               [normalized ident description]
               (print (LogSyncing 1710374400000000000 1710460800000000000)
                  \<lparr>rs_tracker = w, rs_log = (if opt_dryRun \<lparr>opt_today = False, opt_yesterday = y, opt_lastNDays = None, opt_dryRun = d\<rparr> then [LogDryRun] else [])\<rparr>))"
    by (rule sync_on_tracker [where raw = "[billable ident description]"])
       (simp_all add: range_default_example createTimeEntry_billable issue_ids_normalized assms(1))
  then show ?thesis
    by (simp add: idx workTypes_example [OF assms(2)] print_def split: prod.splits option.splits)
qed

section \<open>Two runs in sequence\<close>

lemma sync_entry_example_create:
  assumes "ident \<notin> ms" "search_marker (create_description description ident) \<noteq> None"
    and "tr_issues w ''ABC-1'' = Some issued"
  shows "sync_entry \<lparr>opt_today = False, opt_yesterday = y, opt_lastNDays = None, opt_dryRun = False\<rparr>
           [''development'' \<mapsto> ''12-3''] [''ABC-1'' \<mapsto> ms] (normalized ident description)
           \<lparr>rs_tracker = w, rs_log = l\<rparr>
     = (\<lparr>rs_tracker = w\<lparr>tr_issues := (tr_issues w)(''ABC-1'' \<mapsto> issued @
                          [\<lparr>wi_text = Some (create_description description ident),
                            wi_date = Date ''2024-03-14T09:00:00Z''\<rparr>]),
                        tr_posted := tr_posted w @
                          [(''ABC-1'', \<lparr>pb_duration_minutes = Some 90,
                                       pb_text = create_description description ident,
                                       pb_date = Date ''2024-03-14T09:00:00Z'',
                                       pb_type_id = Some (Str ''12-3'')\<rparr>)]\<rparr>,
         rs_log = l @ [LogSynced description ''ABC-1'' (Date ''2024-03-14T09:00:00Z'')]\<rparr>, None)"
  using assms
  by (simp add: sync_entry_def or_null_def truthy_def entry_workTypeId_def get_property_def
      truthy_value_def postIssueWorkItem_def tracker_post_def print_def Let_def)

lemma sync_entry_example_dry:
  assumes "ident \<notin> ms"
  shows "sync_entry \<lparr>opt_today = False, opt_yesterday = y, opt_lastNDays = None, opt_dryRun = True\<rparr>
           [''development'' \<mapsto> ''12-3''] [''ABC-1'' \<mapsto> ms] (normalized ident description)
           \<lparr>rs_tracker = w, rs_log = l\<rparr>
     = (\<lparr>rs_tracker = w,
         rs_log = l @ [LogSynced description ''ABC-1'' (Date ''2024-03-14T09:00:00Z'')]\<rparr>, None)"
  using assms
  by (simp add: sync_entry_def or_null_def truthy_def entry_workTypeId_def print_def Let_def)

lemma sync_entry_example_assert:
  assumes "ident \<notin> ms" "search_marker (create_description description ident) = None"
  shows "sync_entry \<lparr>opt_today = False, opt_yesterday = y, opt_lastNDays = None, opt_dryRun = False\<rparr>
           [''development'' \<mapsto> ''12-3''] [''ABC-1'' \<mapsto> ms] (normalized ident description)
           \<lparr>rs_tracker = w, rs_log = l\<rparr>
     = (\<lparr>rs_tracker = w, rs_log = l\<rparr>, Some AssertionError)"
  using assms
  by (simp add: sync_entry_def or_null_def truthy_def entry_workTypeId_def postIssueWorkItem_def
      print_def Let_def)

lemma marker_examples:
  "search_marker (create_description ''see [bbbbbbbbbbbbbbbbbbbbbbbb]'' ''aaaaaaaaaaaaaaaaaaaaaaaa'') \<noteq> None"
  "search_marker (create_description ''fix login'' ''aaaaaaaaaaaaaaaaaaaaaaaa'') \<noteq> None"
  "search_marker (create_description ''fix login'' ''a1'') = None"
  "workItemInternalIds [] = []"
  "workItemInternalIds [\<lparr>wi_text = Some (create_description ''see [bbbbbbbbbbbbbbbbbbbbbbbb]''
        ''aaaaaaaaaaaaaaaaaaaaaaaa''), wi_date = dt\<rparr>] = [''bbbbbbbbbbbbbbbbbbbbbbbb'']"
  "workItemInternalIds [\<lparr>wi_text = Some (create_description ''fix login''
        ''aaaaaaaaaaaaaaaaaaaaaaaa''), wi_date = dt\<rparr>] = [''aaaaaaaaaaaaaaaaaaaaaaaa'']"
  by code_simp+

text \<open>
  Claim C1. The claim says that a second run over the same entries creates nothing. For
  the entry \<^verbatim>\<open>aaaaaaaaaaaaaaaaaaaaaaaa\<close> with the description
  \<^verbatim>\<open>see [bbbbbbbbbbbbbbbbbbbbbbbb]\<close> on the empty issue ABC-1, the first run ends
  without an error and sends one create request, and the second run, on the issue tracker
  that the first run has left, ends without an error and sends the same request again:
  the marker indexed for the created item is the token of the description, not the
  identifier of the entry.
\<close>

theorem second_run_creates_again:
  "(case sync default_options (utc 2024 3 15 10 0 0)
          (\<lambda>r. Inr [billable ''aaaaaaaaaaaaaaaaaaaaaaaa'' ''see [bbbbbbbbbbbbbbbbbbbbbbbb]'']) tracker0 of
      Some (st1, None) \<Rightarrow>
        create_calls tracker0 st1 =
          [(''ABC-1'', \<lparr>pb_duration_minutes = Some 90,
                        pb_text = ''see [bbbbbbbbbbbbbbbbbbbbbbbb] [aaaaaaaaaaaaaaaaaaaaaaaa]'',
                        pb_date = Date ''2024-03-14T09:00:00Z'', pb_type_id = Some (Str ''12-3'')\<rparr>)]
        \<and> (case sync default_options (utc 2024 3 15 10 0 0)
                  (\<lambda>r. Inr [billable ''aaaaaaaaaaaaaaaaaaaaaaaa'' ''see [bbbbbbbbbbbbbbbbbbbbbbbb]''])
                  (rs_tracker st1) of
              Some (st2, None) \<Rightarrow>
                create_calls (rs_tracker st1) st2 =
                  [(''ABC-1'', \<lparr>pb_duration_minutes = Some 90,
                        pb_text = ''see [bbbbbbbbbbbbbbbbbbbbbbbb] [aaaaaaaaaaaaaaaaaaaaaaaa]'',
                        pb_date = Date ''2024-03-14T09:00:00Z'', pb_type_id = Some (Str ''12-3'')\<rparr>)]
            | _ \<Rightarrow> False)
    | _ \<Rightarrow> False)"
proof -
  let ?now = "utc 2024 3 15 10 0 0"
  let ?desc = "''see [bbbbbbbbbbbbbbbbbbbbbbbb]''"
  let ?id = "''aaaaaaaaaaaaaaaaaaaaaaaa''"
  let ?clockify = "\<lambda>r :: int \<times> int. Inr [billable ?id ?desc] :: error + billable_entry list"
  let ?body = "\<lparr>pb_duration_minutes = Some 90, pb_text = create_description ?desc ?id,
      pb_date = Date ''2024-03-14T09:00:00Z'', pb_type_id = Some (Str ''12-3'')\<rparr>"
  let ?item = "\<lparr>wi_text = Some (create_description ?desc ?id), wi_date = Date ''2024-03-14T09:00:00Z''\<rparr>"
  let ?w1 = "tracker0\<lparr>tr_issues := (tr_issues tracker0)(''ABC-1'' \<mapsto> [] @ [?item]),
      tr_posted := tr_posted tracker0 @ [(''ABC-1'', ?body)]\<rparr>"
  let ?log = "[LogSyncing 1710374400000000000 1710460800000000000,
      LogSynced ?desc ''ABC-1'' (Date ''2024-03-14T09:00:00Z'')]"
  let ?w2 = "?w1\<lparr>tr_issues := (tr_issues ?w1)(''ABC-1'' \<mapsto> [?item] @ [?item]),
      tr_posted := tr_posted ?w1 @ [(''ABC-1'', ?body)]\<rparr>"
  have run1: "sync default_options ?now ?clockify tracker0 = Some (\<lparr>rs_tracker = ?w1, rs_log = ?log\<rparr>, None)"
    by (subst sync_example [where issued = "[]"])
       (simp_all add: marker_examples sync_entry_example_create [where issued = "[]"])
  have run2: "sync default_options ?now ?clockify ?w1 = Some (\<lparr>rs_tracker = ?w2, rs_log = ?log\<rparr>, None)"
    by (subst sync_example [where issued = "[?item]"])
       (simp_all add: marker_examples sync_entry_example_create [where issued = "[?item]"])
  have created: "create_description ?desc ?id = ''see [bbbbbbbbbbbbbbbbbbbbbbbb] [aaaaaaaaaaaaaaaaaaaaaaaa]''"
    by (simp add: create_description_def)
  show ?thesis
    unfolding run1 using run2 by (simp add: create_calls_def created)
qed

section \<open>The dry run\<close>

lemma rs_tracker_print: "rs_tracker (print l st) = rs_tracker st"
  by (simp add: print_def)

lemma rs_log_print: "rs_log (print l st) = rs_log st @ [l]"
  by (simp add: print_def)

lemma sync_entry_dry_tracker:
  "opt_dryRun options \<Longrightarrow>
   rs_tracker (fst (sync_entry options workTypes byIssueId entry st)) = rs_tracker st"
  by (simp add: sync_entry_def Let_def rs_tracker_print split: option.splits)

lemma sync_entries_dry_tracker:
  "opt_dryRun options \<Longrightarrow>
   rs_tracker (fst (sync_entries options workTypes byIssueId entries st)) = rs_tracker st"
proof (induction entries arbitrary: st)
  case Nil
  show ?case by simp
next
  case (Cons entry rest)
  obtain st' err where step: "sync_entry options workTypes byIssueId entry st = (st', err)"
    by (cases "sync_entry options workTypes byIssueId entry st")
  with sync_entry_dry_tracker [OF Cons.prems, of workTypes byIssueId entry st]
  have "rs_tracker st' = rs_tracker st" by simp
  with step Cons show ?case by (cases err) simp_all
qed

lemma sync_dry_tracker:
  assumes "opt_dryRun options" "sync options now clockify w = Some (st, err)"
  shows "rs_tracker st = w"
proof -
  have "rs_tracker st' = w"
    if "sync_entries options workTypes byIssueId entries
          (print l \<lparr>rs_tracker = w, rs_log = [LogDryRun]\<rparr>) = (st', e)"
    for workTypes byIssueId entries l st' e
    using sync_entries_dry_tracker [OF assms(1), of workTypes byIssueId entries
        "print l \<lparr>rs_tracker = w, rs_log = [LogDryRun]\<rparr>"] that
    by (simp add: rs_tracker_print)
  with assms show ?thesis
    by (auto simp: sync_def Let_def rs_tracker_print split: sum.splits option.splits prod.splits)
qed

lemma sync_entry_live_dry:
  assumes "\<not> opt_dryRun live" "opt_dryRun dry"
    and "sync_entry live workTypes byIssueId entry st = (st', None)"
    and "rs_log st2 = rs_log st"
  shows "sync_entry dry workTypes byIssueId entry st2 = (st2\<lparr>rs_log := rs_log st'\<rparr>, None)"
  using assms
  by (auto simp: sync_entry_def Let_def print_def split: option.splits if_splits prod.splits)

lemma sync_entries_live_dry:
  assumes "\<not> opt_dryRun live" "opt_dryRun dry"
  shows "sync_entries live workTypes byIssueId entries st = (st', None) \<Longrightarrow> rs_log st2 = rs_log st \<Longrightarrow>
    sync_entries dry workTypes byIssueId entries st2 = (st2\<lparr>rs_log := rs_log st'\<rparr>, None)"
proof (induction entries arbitrary: st st2)
  case Nil
  then show ?case by simp
next
  case (Cons entry rest)
  from Cons.prems(1) obtain st1 where
    step: "sync_entry live workTypes byIssueId entry st = (st1, None)"
    and rest: "sync_entries live workTypes byIssueId rest st1 = (st', None)"
    by (auto split: prod.splits option.splits)
  from sync_entry_live_dry [OF assms step Cons.prems(2)]
  have dry: "sync_entry dry workTypes byIssueId entry st2 = (st2\<lparr>rs_log := rs_log st1\<rparr>, None)" .
  have "sync_entries dry workTypes byIssueId rest (st2\<lparr>rs_log := rs_log st1\<rparr>)
      = (st2\<lparr>rs_log := rs_log st1\<rparr>\<lparr>rs_log := rs_log st'\<rparr>, None)"
    by (rule Cons.IH [OF rest]) simp
  with dry show ?case by simp
qed

text \<open>
  Claim C9, as amended. With the dry-run option no request to create a work item reaches
  the issue tracker, however many entries are eligible: the loop and the whole run leave
  the tracker as it was. The lines printed for the entries are those of a live run
  whenever that live run ends without an error. (A live run whose create call fails stops
  at that entry, while the dry run prints the entry as synced and goes on.)
\<close>

theorem dry_run_frame:
  "(opt_dryRun options \<longrightarrow>
      rs_tracker (fst (sync_entries options workTypes byIssueId entries st)) = rs_tracker st)
   \<and> (opt_dryRun options \<and> sync options now clockify w = Some (st_end, err) \<longrightarrow> rs_tracker st_end = w)
   \<and> (sync_entries (options\<lparr>opt_dryRun := False\<rparr>) workTypes byIssueId entries st = (st_live, None) \<longrightarrow>
      sync_entries (options\<lparr>opt_dryRun := True\<rparr>) workTypes byIssueId entries st
        = (st\<lparr>rs_log := rs_log st_live\<rparr>, None))"
proof (intro conjI impI)
  assume "opt_dryRun options"
  then show "rs_tracker (fst (sync_entries options workTypes byIssueId entries st)) = rs_tracker st"
    by (rule sync_entries_dry_tracker)
next
  assume "opt_dryRun options \<and> sync options now clockify w = Some (st_end, err)"
  then show "rs_tracker st_end = w"
    using sync_dry_tracker by blast
next
  assume "sync_entries (options\<lparr>opt_dryRun := False\<rparr>) workTypes byIssueId entries st = (st_live, None)"
  then show "sync_entries (options\<lparr>opt_dryRun := True\<rparr>) workTypes byIssueId entries st
        = (st\<lparr>rs_log := rs_log st_live\<rparr>, None)"
    by (rule sync_entries_live_dry [rotated 2]) simp_all
qed


theorem dry_run_frame_witness:
  "rs_tracker (fst (sync_entries dry_options [''development'' \<mapsto> ''12-3''] [''ABC-1'' \<mapsto> {}]
       [normalized ''aaaaaaaaaaaaaaaaaaaaaaaa'' ''fix login'']
       \<lparr>rs_tracker = tracker0, rs_log = []\<rparr>)) = tracker0
   \<and> sync dry_options (utc 2024 3 15 10 0 0)
       (\<lambda>r. Inr [billable ''aaaaaaaaaaaaaaaaaaaaaaaa'' ''fix login'']) tracker0
     = Some (\<lparr>rs_tracker = tracker0,
              rs_log = [LogDryRun, LogSyncing 1710374400000000000 1710460800000000000,
                        LogSynced ''fix login'' ''ABC-1'' (Date ''2024-03-14T09:00:00Z'')]\<rparr>, None)
   \<and> rs_log (fst (sync_entries default_options [''development'' \<mapsto> ''12-3''] [''ABC-1'' \<mapsto> {}]
       [normalized ''aaaaaaaaaaaaaaaaaaaaaaaa'' ''fix login'']
       \<lparr>rs_tracker = tracker0, rs_log = []\<rparr>))
     = [LogSynced ''fix login'' ''ABC-1'' (Date ''2024-03-14T09:00:00Z'')]
   \<and> sync_entries dry_options [''development'' \<mapsto> ''12-3''] [''ABC-1'' \<mapsto> {}]
       [normalized ''aaaaaaaaaaaaaaaaaaaaaaaa'' ''fix login'']
       \<lparr>rs_tracker = tracker0, rs_log = []\<rparr>
     = (\<lparr>rs_tracker = tracker0,
         rs_log = [LogSynced ''fix login'' ''ABC-1'' (Date ''2024-03-14T09:00:00Z'')]\<rparr>, None)"
proof -
  let ?entry = "normalized ''aaaaaaaaaaaaaaaaaaaaaaaa'' ''fix login''"
  let ?st = "\<lparr>rs_tracker = tracker0, rs_log = []\<rparr>"
  let ?wt = "[''development'' \<mapsto> ''12-3'']"
  let ?idx = "[''ABC-1'' \<mapsto> ({} :: string set)]"
  let ?clockify = "\<lambda>r :: int \<times> int.
      Inr [billable ''aaaaaaaaaaaaaaaaaaaaaaaa'' ''fix login''] :: error + billable_entry list"
  let ?item = "\<lparr>wi_text = Some (create_description ''fix login'' ''aaaaaaaaaaaaaaaaaaaaaaaa''),
      wi_date = Date ''2024-03-14T09:00:00Z''\<rparr>"
  let ?body = "\<lparr>pb_duration_minutes = Some 90,
      pb_text = create_description ''fix login'' ''aaaaaaaaaaaaaaaaaaaaaaaa'',
      pb_date = Date ''2024-03-14T09:00:00Z'', pb_type_id = Some (Str ''12-3'')\<rparr>"
  let ?live = "\<lparr>rs_tracker = tracker0\<lparr>tr_issues := (tr_issues tracker0)(''ABC-1'' \<mapsto> [] @ [?item]),
        tr_posted := tr_posted tracker0 @ [(''ABC-1'', ?body)]\<rparr>,
      rs_log = [] @ [LogSynced ''fix login'' ''ABC-1'' (Date ''2024-03-14T09:00:00Z'')]\<rparr>"
  have dry_run: "sync dry_options (utc 2024 3 15 10 0 0) ?clockify tracker0
     = Some (\<lparr>rs_tracker = tracker0,
              rs_log = [LogDryRun, LogSyncing 1710374400000000000 1710460800000000000,
                        LogSynced ''fix login'' ''ABC-1'' (Date ''2024-03-14T09:00:00Z'')]\<rparr>, None)"
    by (subst sync_example [where issued = "[]"])
       (simp_all add: marker_examples sync_entry_example_dry)
  have live: "sync_entries (dry_options\<lparr>opt_dryRun := False\<rparr>) ?wt ?idx [?entry] ?st = (?live, None)"
    using sync_entry_example_create [where issued = "[]" and ms = "{}" and w = tracker0
        and ident = "''aaaaaaaaaaaaaaaaaaaaaaaa''" and description = "''fix login''" and l = "[]"
        and y = False]
    by (simp add: marker_examples)
  note frame = dry_run_frame [where options = dry_options and workTypes = ?wt and byIssueId = ?idx
      and entries = "[?entry]" and st = ?st and now = "utc 2024 3 15 10 0 0"
      and clockify = ?clockify and w = tracker0 and st_live = ?live
      and st_end = "\<lparr>rs_tracker = tracker0,
              rs_log = [LogDryRun, LogSyncing 1710374400000000000 1710460800000000000,
                        LogSynced ''fix login'' ''ABC-1'' (Date ''2024-03-14T09:00:00Z'')]\<rparr>"
      and err = None]
  from frame have "rs_tracker (fst (sync_entries dry_options ?wt ?idx [?entry] ?st)) = tracker0"
    by simp
  moreover from frame live have "sync_entries (dry_options\<lparr>opt_dryRun := True\<rparr>) ?wt ?idx [?entry] ?st
      = (?st\<lparr>rs_log := rs_log ?live\<rparr>, None)"
    by blast
  moreover from live have "rs_log (fst (sync_entries default_options ?wt ?idx [?entry] ?st))
      = [LogSynced ''fix login'' ''ABC-1'' (Date ''2024-03-14T09:00:00Z'')]"
    by simp
  ultimately show ?thesis
    using dry_run by simp
qed

text \<open>
  The claim as it is written fails for an entry whose create call is refused: the dry run
  prints the line of a synced entry, the live run throws and prints nothing.
\<close>

theorem dry_run_log_differs:
  "sync_entries dry_options [''development'' \<mapsto> ''12-3''] [''ABC-1'' \<mapsto> {}]
       [normalized ''a1'' ''fix login''] \<lparr>rs_tracker = tracker0, rs_log = []\<rparr>
     = (\<lparr>rs_tracker = tracker0,
         rs_log = [LogSynced ''fix login'' ''ABC-1'' (Date ''2024-03-14T09:00:00Z'')]\<rparr>, None)
   \<and> sync_entries default_options [''development'' \<mapsto> ''12-3''] [''ABC-1'' \<mapsto> {}]
       [normalized ''a1'' ''fix login''] \<lparr>rs_tracker = tracker0, rs_log = []\<rparr>
     = (\<lparr>rs_tracker = tracker0, rs_log = []\<rparr>, Some AssertionError)"
  using sync_entry_example_dry [where ms = "{}" and w = tracker0 and ident = "''a1''"
      and description = "''fix login''" and l = "[]" and y = False]
    sync_entry_example_assert [where ms = "{}" and w = tracker0 and ident = "''a1''"
      and description = "''fix login''" and l = "[]" and y = False]
  by (simp add: marker_examples)

section \<open>The normalizer\<close>

lemma Duration_from_error: "Duration_from s = Inl e \<Longrightarrow> e = RangeError"
  unfolding Duration_from_def by (cases "parse_duration s") (auto split: if_splits)

lemma total_minutes_error: "total_minutes d = Inl e \<Longrightarrow> e = RangeError"
  by (simp add: total_minutes_def Let_def split: if_splits)

lemma entry_durationMinutes_error:
  assumes "entry_durationMinutes dur = Inl e"
  shows "e = RangeError \<and> (\<exists>s. dur = Some s \<and> s \<noteq> [] \<and>
      (Duration_from s = Inl RangeError \<or> (\<exists>d. Duration_from s = Inr d \<and> total_minutes d = Inl RangeError)))"
proof (cases dur)
  case None
  with assms show ?thesis by (simp add: entry_durationMinutes_def)
next
  case (Some s)
  with assms have ne: "s \<noteq> []"
    by (auto simp: entry_durationMinutes_def)
  show ?thesis
  proof (cases "Duration_from s")
    case (Inl e')
    with assms Some ne have "e = e'" by (simp add: entry_durationMinutes_def)
    with Inl Duration_from_error [OF Inl] Some ne show ?thesis by simp
  next
    case (Inr d)
    with assms Some ne have "total_minutes d = Inl e"
      by (simp add: entry_durationMinutes_def split: sum.splits)
    with total_minutes_error [OF this] Inr Some ne show ?thesis by auto
  qed
qed

lemma entry_type_nameless:
  "nameless_first_tag b \<Longrightarrow> entry_type (be_tags b) = Inl TypeError"
  by (auto simp: nameless_first_tag_def entry_type_def split: option.splits list.splits)

lemma entry_type_named:
  "\<not> nameless_first_tag b \<Longrightarrow> \<exists>ty. entry_type (be_tags b) = Inr ty
     \<and> (be_tags b = None \<or> be_tags b = Some [] \<longrightarrow> ty = None)"
  by (auto simp: nameless_first_tag_def entry_type_def split: option.splits list.splits)

lemma entry_type_error:
  "entry_type (be_tags b) = Inl e \<Longrightarrow> e = TypeError \<and> nameless_first_tag b"
  by (auto simp: nameless_first_tag_def entry_type_def split: option.splits list.splits)

lemma entry_durationMinutes_refused:
  assumes "s \<noteq> []" and "refused_duration s"
  shows "entry_durationMinutes (Some s) = Inl RangeError"
proof (cases "Duration_from s")
  case (Inl e)
  with Duration_from_error [OF Inl] assms(1) show ?thesis
    by (simp add: entry_durationMinutes_def)
next
  case (Inr d)
  with assms(2) obtain e where e: "total_minutes d = Inl e"
    by (cases "total_minutes d") (simp_all add: refused_duration_def)
  with total_minutes_error [OF e] Inr assms(1) show ?thesis
    by (simp add: entry_durationMinutes_def)
qed

lemma entry_durationMinutes_accepted:
  assumes "d = None \<or> d = Some [] \<or> (\<exists>s. d = Some s \<and> \<not> refused_duration s)"
  shows "\<exists>q. entry_durationMinutes d = Inr q \<and> (d = None \<longrightarrow> q = None)"
proof (cases d)
  case None
  then show ?thesis by (simp add: entry_durationMinutes_def)
next
  case (Some s)
  show ?thesis
  proof (cases "s = []")
    case True
    with Some show ?thesis by (simp add: entry_durationMinutes_def)
  next
    case False
    with assms Some have "\<not> refused_duration s" by simp
    then obtain dur m where "Duration_from s = Inr dur" "total_minutes dur = Inr m"
      by (auto simp: refused_duration_def split: sum.splits)
    with Some False show ?thesis by (simp add: entry_durationMinutes_def)
  qed
qed

lemma entry_durationMinutes_raises:
  assumes "entry_durationMinutes d = Inl e"
  shows "e = RangeError \<and> (\<exists>s. d = Some s \<and> s \<noteq> [] \<and> refused_duration s)"
proof -
  from entry_durationMinutes_error [OF assms]
  obtain s where "e = RangeError" "d = Some s" "s \<noteq> []"
    and "Duration_from s = Inl RangeError
         \<or> (\<exists>dur. Duration_from s = Inr dur \<and> total_minutes dur = Inl RangeError)"
    by blast
  then show ?thesis by (auto simp: refused_duration_def)
qed

lemma absent_fields:
  "be_task b = None \<or> (\<exists>t. be_task b = Some t \<and> task_name t = None) \<Longrightarrow> entry_issueId (be_task b) = None"
  "ti_start ti = None \<Longrightarrow> entry_startDate (ti_start ti) = None"
  by (auto simp: entry_issueId_def entry_startDate_def)


text \<open>
  Claim C4, as amended. The billable entries are the objects of the model: every field
  that the normalizer tests or reads a property of may be missing, and a field that is
  there has the type that the time tracker gives it (a list of tag objects, a task
  object, an interval object, strings for the names, the start and the duration). On
  these the normalizer throws in exactly three cases, tested
  in this order: a \<^verbatim>\<open>TypeError\<close> when the first tag has no name; a
  \<^verbatim>\<open>TypeError\<close> when the entry has no interval; a \<^verbatim>\<open>RangeError\<close> when the
  Temporal library refuses the duration, a non-empty string that is no ISO 8601 duration
  or is out of range, or a duration with years, months or weeks. For every other billable
  entry, also one without tags, without a task, without a start or without a duration, it
  returns a time entry, and a field that cannot be derived is absent: no tags give no
  type, no task or no task name gives no issue, no start gives no start date, no duration
  gives no minutes.
\<close>

theorem normalizer_raises_exactly:
  "(nameless_first_tag b_tag \<longrightarrow> createTimeEntry b_tag = Inl TypeError)
   \<and> (\<not> nameless_first_tag b_interval \<and> be_timeInterval b_interval = None \<longrightarrow>
        createTimeEntry b_interval = Inl TypeError)
   \<and> (\<not> nameless_first_tag b_duration \<and> be_timeInterval b_duration = Some ti'
        \<and> ti_duration ti' = Some s \<and> s \<noteq> [] \<and> refused_duration s \<longrightarrow>
        createTimeEntry b_duration = Inl RangeError)
   \<and> (\<not> nameless_first_tag b \<and> be_timeInterval b = Some ti
        \<and> (ti_duration ti = None \<or> ti_duration ti = Some []
            \<or> (\<exists>s. ti_duration ti = Some s \<and> \<not> refused_duration s)) \<longrightarrow>
        (\<exists>entry. createTimeEntry b = Inr entry
           \<and> te_id entry = be_id b \<and> te_description entry = be_description b
           \<and> (be_tags b = None \<or> be_tags b = Some [] \<longrightarrow> te_type entry = None)
           \<and> (be_task b = None \<or> (\<exists>t. be_task b = Some t \<and> task_name t = None) \<longrightarrow> te_issueId entry = None)
           \<and> (ti_start ti = None \<longrightarrow> te_startDate entry = None)
           \<and> (ti_duration ti = None \<longrightarrow> te_durationMinutes entry = None)))
   \<and> (createTimeEntry b_raise = Inl e \<longrightarrow>
        (e = TypeError \<and> (nameless_first_tag b_raise \<or> be_timeInterval b_raise = None))
        \<or> (e = RangeError \<and> \<not> nameless_first_tag b_raise
            \<and> (\<exists>ti s. be_timeInterval b_raise = Some ti \<and> ti_duration ti = Some s \<and> s \<noteq> []
                  \<and> refused_duration s)))"
proof (intro conjI impI)
  assume "nameless_first_tag b_tag"
  then show "createTimeEntry b_tag = Inl TypeError"
    by (simp add: createTimeEntry_def entry_type_nameless)
next
  assume h: "\<not> nameless_first_tag b_interval \<and> be_timeInterval b_interval = None"
  then obtain ty where "entry_type (be_tags b_interval) = Inr ty"
    using entry_type_named by blast
  with h show "createTimeEntry b_interval = Inl TypeError"
    by (simp add: createTimeEntry_def)
next
  assume h: "\<not> nameless_first_tag b_duration \<and> be_timeInterval b_duration = Some ti'
        \<and> ti_duration ti' = Some s \<and> s \<noteq> [] \<and> refused_duration s"
  then obtain ty where "entry_type (be_tags b_duration) = Inr ty"
    using entry_type_named by blast
  moreover from h have "entry_durationMinutes (ti_duration ti') = Inl RangeError"
    by (simp add: entry_durationMinutes_refused)
  ultimately show "createTimeEntry b_duration = Inl RangeError"
    using h by (simp add: createTimeEntry_def)
next
  assume h: "\<not> nameless_first_tag b \<and> be_timeInterval b = Some ti
        \<and> (ti_duration ti = None \<or> ti_duration ti = Some []
            \<or> (\<exists>s. ti_duration ti = Some s \<and> \<not> refused_duration s))"
  then obtain ty where ty: "entry_type (be_tags b) = Inr ty"
    and tyn: "be_tags b = None \<or> be_tags b = Some [] \<longrightarrow> ty = None"
    using entry_type_named by blast
  from h have "ti_duration ti = None \<or> ti_duration ti = Some []
      \<or> (\<exists>s. ti_duration ti = Some s \<and> \<not> refused_duration s)"
    by (elim conjE)
  from entry_durationMinutes_accepted [OF this]
  obtain q where q: "entry_durationMinutes (ti_duration ti) = Inr q"
    and qn: "ti_duration ti = None \<longrightarrow> q = None"
    by (elim exE conjE)
  show "\<exists>entry. createTimeEntry b = Inr entry
           \<and> te_id entry = be_id b \<and> te_description entry = be_description b
           \<and> (be_tags b = None \<or> be_tags b = Some [] \<longrightarrow> te_type entry = None)
           \<and> (be_task b = None \<or> (\<exists>t. be_task b = Some t \<and> task_name t = None) \<longrightarrow> te_issueId entry = None)
           \<and> (ti_start ti = None \<longrightarrow> te_startDate entry = None)
           \<and> (ti_duration ti = None \<longrightarrow> te_durationMinutes entry = None)"
  proof (intro exI conjI impI)
    show "createTimeEntry b = Inr \<lparr>te_id = be_id b, te_description = be_description b,
          te_type = ty, te_issueId = entry_issueId (be_task b),
          te_startDate = entry_startDate (ti_start ti), te_durationMinutes = q\<rparr>"
      using h ty q by (simp add: createTimeEntry_def)
  qed (simp_all add: absent_fields qn tyn entry_startDate_def)
next
  assume r: "createTimeEntry b_raise = Inl e"
  show "(e = TypeError \<and> (nameless_first_tag b_raise \<or> be_timeInterval b_raise = None))
        \<or> (e = RangeError \<and> \<not> nameless_first_tag b_raise
            \<and> (\<exists>ti s. be_timeInterval b_raise = Some ti \<and> ti_duration ti = Some s \<and> s \<noteq> []
                  \<and> refused_duration s))"
  proof (cases "entry_type (be_tags b_raise)")
    case (Inl e')
    with r have "e = e'" by (simp add: createTimeEntry_def)
    with entry_type_error [OF Inl] show ?thesis by simp
  next
    case (Inr ty)
    then have named: "\<not> nameless_first_tag b_raise"
      using entry_type_nameless [of b_raise] by auto
    show ?thesis
    proof (cases "be_timeInterval b_raise")
      case None
      with r Inr show ?thesis by (simp add: createTimeEntry_def)
    next
      case (Some ti)
      with r Inr have "entry_durationMinutes (ti_duration ti) = Inl e"
        by (simp add: createTimeEntry_def split: sum.splits)
      from entry_durationMinutes_raises [OF this] Some named show ?thesis by simp
    qed
  qed
qed


theorem normalizer_raises_exactly_witness:
  "createTimeEntry \<lparr>be_id = ''aaaaaaaaaaaaaaaaaaaaaaaa'', be_description = ''lunch'',
       be_tags = Some [\<lparr>tag_name = None\<rparr>], be_task = None,
       be_timeInterval = Some \<lparr>ti_start = None, ti_duration = None\<rparr>, be_billable = True\<rparr>
     = Inl TypeError
   \<and> createTimeEntry \<lparr>be_id = ''aaaaaaaaaaaaaaaaaaaaaaaa'', be_description = ''lunch'',
       be_tags = None, be_task = None, be_timeInterval = None, be_billable = True\<rparr>
     = Inl TypeError
   \<and> createTimeEntry \<lparr>be_id = ''aaaaaaaaaaaaaaaaaaaaaaaa'', be_description = ''lunch'',
       be_tags = None, be_task = None,
       be_timeInterval = Some \<lparr>ti_start = None, ti_duration = Some ''1h30''\<rparr>, be_billable = True\<rparr>
     = Inl RangeError
   \<and> createTimeEntry \<lparr>be_id = ''aaaaaaaaaaaaaaaaaaaaaaaa'', be_description = ''lunch'',
       be_tags = None, be_task = None,
       be_timeInterval = Some \<lparr>ti_start = None, ti_duration = None\<rparr>, be_billable = True\<rparr>
     = Inr \<lparr>te_id = ''aaaaaaaaaaaaaaaaaaaaaaaa'', te_description = ''lunch'', te_type = None,
            te_issueId = None, te_startDate = None, te_durationMinutes = None\<rparr>
   \<and> refused_duration ''1h30''"
proof -
  let ?tagged = "\<lparr>be_id = ''aaaaaaaaaaaaaaaaaaaaaaaa'', be_description = ''lunch'',
       be_tags = Some [\<lparr>tag_name = None\<rparr>], be_task = None,
       be_timeInterval = Some \<lparr>ti_start = None, ti_duration = None\<rparr>, be_billable = True\<rparr>"
  let ?bare = "\<lparr>be_id = ''aaaaaaaaaaaaaaaaaaaaaaaa'', be_description = ''lunch'',
       be_tags = None, be_task = None, be_timeInterval = None, be_billable = True\<rparr>"
  let ?bad = "\<lparr>be_id = ''aaaaaaaaaaaaaaaaaaaaaaaa'', be_description = ''lunch'',
       be_tags = None, be_task = None,
       be_timeInterval = Some \<lparr>ti_start = None, ti_duration = Some ''1h30''\<rparr>, be_billable = True\<rparr>"
  let ?ok = "\<lparr>be_id = ''aaaaaaaaaaaaaaaaaaaaaaaa'', be_description = ''lunch'',
       be_tags = None, be_task = None,
       be_timeInterval = Some \<lparr>ti_start = None, ti_duration = None\<rparr>, be_billable = True\<rparr>"
  have refused: "refused_duration ''1h30''"
    by (simp add: refused_duration_def duration_eval)
  have raised: "createTimeEntry ?bad = Inl RangeError"
    by (simp add: createTimeEntry_def entry_type_def duration_examples)
  note inst = normalizer_raises_exactly
    [where b_tag = ?tagged and b_interval = ?bare and b_duration = ?bad
       and ti' = "\<lparr>ti_start = None, ti_duration = Some ''1h30''\<rparr>" and s = "''1h30''"
       and b = ?ok and ti = "\<lparr>ti_start = None, ti_duration = None\<rparr>"
       and b_raise = ?bad and e = RangeError]
  from inst refused raised have tagged: "createTimeEntry ?tagged = Inl TypeError"
    and bare: "createTimeEntry ?bare = Inl TypeError"
    and bad: "createTimeEntry ?bad = Inl RangeError"
    and ok: "\<exists>entry. createTimeEntry ?ok = Inr entry
      \<and> te_id entry = ''aaaaaaaaaaaaaaaaaaaaaaaa'' \<and> te_description entry = ''lunch''
      \<and> te_type entry = None \<and> te_issueId entry = None \<and> te_startDate entry = None
      \<and> te_durationMinutes entry = None"
    by (simp_all add: nameless_first_tag_def)
  from ok obtain entry where "createTimeEntry ?ok = Inr entry" and "te_id entry = ''aaaaaaaaaaaaaaaaaaaaaaaa''"
    and "te_description entry = ''lunch''" and "te_type entry = None" and "te_issueId entry = None"
    and "te_startDate entry = None" and "te_durationMinutes entry = None"
    by blast
  then have "createTimeEntry ?ok = Inr \<lparr>te_id = ''aaaaaaaaaaaaaaaaaaaaaaaa'', te_description = ''lunch'',
      te_type = None, te_issueId = None, te_startDate = None, te_durationMinutes = None\<rparr>"
    by (cases entry) simp
  with tagged bare bad refused show ?thesis by simp
qed

text \<open>
  The claim as it is written fails in each of the three cases: for a duration that is no
  ISO 8601 duration, for a first tag without a name and for an entry without an interval
  the normalizer throws.
\<close>

theorem normalizer_raises:
  "createTimeEntry (billable ''aaaaaaaaaaaaaaaaaaaaaaaa'' ''fix login'')
     = Inr (normalized ''aaaaaaaaaaaaaaaaaaaaaaaa'' ''fix login'')
   \<and> createTimeEntry ((billable ''aaaaaaaaaaaaaaaaaaaaaaaa'' ''fix login'')
        \<lparr>be_timeInterval :=
           Some \<lparr>ti_start = Some ''2024-03-14T09:00:00Z'', ti_duration = Some ''1h30''\<rparr>\<rparr>)
     = Inl RangeError
   \<and> createTimeEntry ((billable ''aaaaaaaaaaaaaaaaaaaaaaaa'' ''fix login'')
        \<lparr>be_tags := Some [\<lparr>tag_name = None\<rparr>]\<rparr>)
     = Inl TypeError
   \<and> createTimeEntry ((billable ''aaaaaaaaaaaaaaaaaaaaaaaa'' ''fix login'')
        \<lparr>be_timeInterval := None\<rparr>)
     = Inl TypeError"
  by (simp add: createTimeEntry_billable)
     (simp add: createTimeEntry_def entry_type_def duration_examples string_examples
        or_null_def truthy_def)

section \<open>Duration conversion\<close>












section \<open>The decision for one entry\<close>













section \<open>Two runs when the marker identifies the entry\<close>

lemma workItemInternalIds_append:
  "workItemInternalIds (xs @ ys) = workItemInternalIds xs @ workItemInternalIds ys"
  by (simp add: workItemInternalIds_def)

lemma tracker_index_markers:
  "tracker_index w timeEntries i = Some ms \<Longrightarrow> ms = tracker_markers w i"
  by (auto simp: tracker_index_def tracker_markers_def split: if_splits option.splits)

lemma tracker_post_grows:
  assumes "tracker_post issueId body w = (w', err)"
  shows "tracker_markers w i \<subseteq> tracker_markers w' i"
    and "tr_issues w' i = None \<longleftrightarrow> tr_issues w i = None"
  using assms
  by (auto simp: tracker_post_def tracker_markers_def Let_def workItemInternalIds_append
           split: option.splits if_splits)

lemma postIssueWorkItem_grows:
  assumes "postIssueWorkItem issueId data w = (w', err)"
  shows "tracker_markers w i \<subseteq> tracker_markers w' i"
    and "tr_issues w' i = None \<longleftrightarrow> tr_issues w i = None"
proof -
  show "tracker_markers w i \<subseteq> tracker_markers w' i"
  proof (cases "search_marker (cd_description data) = None")
    case True
    with assms show ?thesis by (simp add: postIssueWorkItem_def)
  next
    case False
    with assms show ?thesis
      using tracker_post_grows(1) by (simp add: postIssueWorkItem_def)
  qed
  show "tr_issues w' i = None \<longleftrightarrow> tr_issues w i = None"
  proof (cases "search_marker (cd_description data) = None")
    case True
    with assms show ?thesis by (simp add: postIssueWorkItem_def)
  next
    case False
    with assms show ?thesis
      using tracker_post_grows(2) by (simp add: postIssueWorkItem_def)
  qed
qed

lemma postIssueWorkItem_marks:
  assumes "postIssueWorkItem issueId data w = (w', None)"
    and "extractInternalId (cd_description data) = Some m"
  shows "m \<in> tracker_markers w' issueId"
proof -
  from assms(1) have post: "tracker_post issueId
      \<lparr>pb_duration_minutes = cd_durationMinutes data, pb_text = cd_description data,
       pb_date = cd_date data,
       pb_type_id = (if truthy_value (cd_workTypeId data) then cd_workTypeId data else None)\<rparr> w
        = (w', None)"
    by (simp add: postIssueWorkItem_def split: if_splits)
  then obtain issued where "tr_issues w issueId = Some issued"
    and "tr_issues w' issueId = Some (issued @ [\<lparr>wi_text = Some (cd_description data),
        wi_date = cd_date data\<rparr>])"
    by (auto simp: tracker_post_def Let_def split: option.splits)
  moreover have "truthy (Some m)"
    using assms(2) extractInternalId_shape marker_shape_truthy by blast
  ultimately show ?thesis
    using assms(2)
    by (simp add: tracker_markers_def workItemInternalIds_append)
       (simp add: workItemInternalIds_def item_text_def)
qed

lemma sync_entry_grows:
  assumes "sync_entry options workTypes byIssueId entry st = (st', err)"
  shows "tracker_markers (rs_tracker st) i \<subseteq> tracker_markers (rs_tracker st') i"
    and "tr_issues (rs_tracker st') i = None \<longleftrightarrow> tr_issues (rs_tracker st) i = None"
proof -
  have "rs_tracker st' = rs_tracker st
      \<or> (\<exists>issueId data e. postIssueWorkItem issueId data (rs_tracker st) = (rs_tracker st', e))"
    using assms
    by (auto simp: sync_entry_def Let_def print_def split: option.splits if_splits prod.splits)
  then show "tracker_markers (rs_tracker st) i \<subseteq> tracker_markers (rs_tracker st') i"
    and "tr_issues (rs_tracker st') i = None \<longleftrightarrow> tr_issues (rs_tracker st) i = None"
    using postIssueWorkItem_grows by (metis order_refl)+
qed

text \<open>
  A step of a live run that ends without an error leaves the identifier of its entry among
  the markers of the issue, when the created text gives the identifier back and the index
  holds no marker that the issue tracker does not hold.
\<close>

lemma sync_entry_marks:
  assumes live: "\<not> opt_dryRun options"
    and step: "sync_entry options workTypes byIssueId entry st = (st', None)"
    and issue: "or_null (te_issueId entry) = Some issueId"
    and trip: "extractInternalId (create_description (te_description entry) (te_id entry))
        = Some (te_id entry)"
    and snap: "\<forall>ms. byIssueId issueId = Some ms \<longrightarrow> ms \<subseteq> tracker_markers (rs_tracker st) issueId"
  shows "te_id entry \<in> tracker_markers (rs_tracker st') issueId"
proof -
  from step obtain startDate where sd: "te_startDate entry = Some startDate"
    by (cases "te_startDate entry") (simp_all add: sync_entry_def)
  from step sd issue obtain ms where ms: "byIssueId issueId = Some ms"
    by (cases "byIssueId issueId") (simp_all add: sync_entry_def)
  show ?thesis
  proof (cases "te_id entry \<in> ms")
    case True
    with step sd issue ms have "rs_tracker st' = rs_tracker st"
      by (auto simp: sync_entry_def print_def)
    with True snap ms show ?thesis by auto
  next
    case False
    let ?data = "\<lparr>cd_description = create_description (te_description entry) (te_id entry),
        cd_date = startDate, cd_durationMinutes = te_durationMinutes entry,
        cd_workTypeId = entry_workTypeId workTypes (te_type entry)\<rparr>"
    from step sd issue ms False live
    have "postIssueWorkItem issueId ?data (rs_tracker st) = (rs_tracker st', None)"
      by (auto simp: sync_entry_def Let_def print_def split: prod.splits option.splits)
    then show ?thesis
      using trip by (intro postIssueWorkItem_marks [where data = ?data]) simp_all
  qed
qed

lemma sync_entry_ok_fields:
  assumes "sync_entry options workTypes byIssueId entry st = (st', None)"
  shows "te_startDate entry \<noteq> None"
    and "or_null (te_issueId entry) = Some issueId \<Longrightarrow> byIssueId issueId \<noteq> None"
  using assms
  by (auto simp: sync_entry_def split: option.splits)

lemma sync_entries_grows:
  "sync_entries options workTypes byIssueId entries st = (st', err) \<Longrightarrow>
   tracker_markers (rs_tracker st) i \<subseteq> tracker_markers (rs_tracker st') i
   \<and> (tr_issues (rs_tracker st') i = None \<longleftrightarrow> tr_issues (rs_tracker st) i = None)"
proof (induction entries arbitrary: st)
  case Nil
  then show ?case by simp
next
  case (Cons entry rest)
  obtain st1 e1 where step: "sync_entry options workTypes byIssueId entry st = (st1, e1)"
    by (cases "sync_entry options workTypes byIssueId entry st")
  note g = sync_entry_grows [OF step, of i]
  show ?case
  proof (cases e1)
    case None
    with Cons.prems step have "sync_entries options workTypes byIssueId rest st1 = (st', err)"
      by simp
    from Cons.IH [OF this] g show ?thesis by auto
  next
    case (Some e)
    with Cons.prems step have "st' = st1" by simp
    with g show ?thesis by simp
  qed
qed

lemma sync_entries_marks:
  assumes live: "\<not> opt_dryRun options"
  shows "sync_entries options workTypes byIssueId entries st = (st', None) \<Longrightarrow>
    \<forall>entry \<in> set entries. \<forall>i. or_null (te_issueId entry) = Some i \<longrightarrow>
       extractInternalId (create_description (te_description entry) (te_id entry)) = Some (te_id entry) \<Longrightarrow>
    \<forall>i ms. byIssueId i = Some ms \<longrightarrow> ms \<subseteq> tracker_markers (rs_tracker st) i \<Longrightarrow>
    \<forall>entry \<in> set entries. te_startDate entry \<noteq> None \<and>
       (\<forall>i. or_null (te_issueId entry) = Some i \<longrightarrow>
          byIssueId i \<noteq> None \<and> te_id entry \<in> tracker_markers (rs_tracker st') i)"
proof (induction entries arbitrary: st)
  case Nil
  then show ?case by simp
next
  case (Cons entry rest)
  from Cons.prems(1) obtain st1 where step: "sync_entry options workTypes byIssueId entry st = (st1, None)"
    and rest: "sync_entries options workTypes byIssueId rest st1 = (st', None)"
    by (auto split: prod.splits option.splits)
  have snap1: "\<forall>i ms. byIssueId i = Some ms \<longrightarrow> ms \<subseteq> tracker_markers (rs_tracker st1) i"
    using Cons.prems(3) sync_entry_grows(1) [OF step] by blast
  have tail: "\<forall>entry \<in> set rest. te_startDate entry \<noteq> None \<and>
       (\<forall>i. or_null (te_issueId entry) = Some i \<longrightarrow>
          byIssueId i \<noteq> None \<and> te_id entry \<in> tracker_markers (rs_tracker st') i)"
    using Cons.IH [OF rest _ snap1] Cons.prems(2) by simp
  have head: "te_startDate entry \<noteq> None \<and>
       (\<forall>i. or_null (te_issueId entry) = Some i \<longrightarrow>
          byIssueId i \<noteq> None \<and> te_id entry \<in> tracker_markers (rs_tracker st') i)"
  proof (intro conjI allI impI)
    show "te_startDate entry \<noteq> None" by (rule sync_entry_ok_fields(1) [OF step])
  next
    fix i assume i: "or_null (te_issueId entry) = Some i"
    show "byIssueId i \<noteq> None" by (rule sync_entry_ok_fields(2) [OF step i])
    have "te_id entry \<in> tracker_markers (rs_tracker st1) i"
      using live step i Cons.prems(2,3) by (intro sync_entry_marks) auto
    then show "te_id entry \<in> tracker_markers (rs_tracker st') i"
      using sync_entries_grows [OF rest, of i] by blast
  qed
  from head tail show ?case by simp
qed

text \<open>A run whose entries are all indexed as synced creates nothing and ends without an error.\<close>

lemma sync_entries_all_synced:
  "\<forall>entry \<in> set entries. te_startDate entry \<noteq> None \<and>
       (\<forall>i. or_null (te_issueId entry) = Some i \<longrightarrow> (\<exists>ms. byIssueId i = Some ms \<and> te_id entry \<in> ms)) \<Longrightarrow>
   rs_tracker (fst (sync_entries options workTypes byIssueId entries st)) = rs_tracker st
   \<and> snd (sync_entries options workTypes byIssueId entries st) = None"
proof (induction entries arbitrary: st)
  case Nil
  show ?case by simp
next
  case (Cons entry rest)
  from Cons.prems obtain startDate where sd: "te_startDate entry = Some startDate" by auto
  have "\<exists>l. sync_entry options workTypes byIssueId entry st = (print l st, None)"
  proof (cases "or_null (te_issueId entry)")
    case None
    with sd have "sync_entry options workTypes byIssueId entry st
        = (print (LogNoIssue (te_description entry) startDate) st, None)"
      by (simp add: sync_entry_def)
    then show ?thesis by blast
  next
    case (Some i)
    with Cons.prems obtain ms where "byIssueId i = Some ms" "te_id entry \<in> ms" by auto
    with sd Some have "sync_entry options workTypes byIssueId entry st
        = (print (LogSkipping (te_description entry) i startDate) st, None)"
      by (simp add: sync_entry_def)
    then show ?thesis by blast
  qed
  then obtain l where "sync_entry options workTypes byIssueId entry st = (print l st, None)" by blast
  moreover have "rs_tracker (fst (sync_entries options workTypes byIssueId rest (print l st)))
      = rs_tracker (print l st)
    \<and> snd (sync_entries options workTypes byIssueId rest (print l st)) = None"
    using Cons.prems by (intro Cons.IH) simp
  ultimately show ?case by (simp add: rs_tracker_print)
qed

lemma or_null_Some: "or_null v = Some i \<longleftrightarrow> truthy v \<and> the v = i"
  by (cases v) (auto simp: or_null_def truthy_def)

lemma issue_ids_iff:
  "i \<in> issue_ids timeEntries \<longleftrightarrow> (\<exists>entry \<in> set timeEntries. or_null (te_issueId entry) = Some i)"
proof -
  have "i \<in> issue_ids timeEntries \<longleftrightarrow>
      (\<exists>entry \<in> set timeEntries. truthy (te_issueId entry) \<and> the (te_issueId entry) = i)"
    unfolding issue_ids_def by (induction timeEntries) auto
  then show ?thesis by (simp only: or_null_Some)
qed

lemma sync_ok_issues_known:
  assumes "getOptionDateRange now options = Inr (s, e)"
    and "clockify (s, e) = Inr raw"
    and "map_createTimeEntry (filter be_billable raw) = Inr timeEntries"
    and "sync options now clockify w = Some (st, None)"
  shows "\<forall>i \<in> issue_ids timeEntries. tr_issues w i \<noteq> None"
proof (rule ccontr)
  assume "\<not> (\<forall>i \<in> issue_ids timeEntries. tr_issues w i \<noteq> None)"
  then have "\<exists>i \<in> issue_ids timeEntries. tr_issues w i = None" by simp
  then have "workItemsByIssueId (tracker_get w)
      (getUniqueBy (filter (\<lambda>entry. truthy (te_issueId entry)) timeEntries) te_issueId)
        = Some (Inl HttpError)"
    by (rule workItemsByIssueId_tracker_unknown)
  with assms(1-3) have "snd (the (sync options now clockify w)) = Some HttpError"
    by (simp add: sync_def getBillableEntries_def)
  with assms(4) show False by simp
qed



text \<open>
  Two runs in sequence, when the text created for every entry gives the identifier of the
  entry back: a live run that ends without an error is followed by a run that ends without
  an error and leaves the issue tracker as it found it, so it has created nothing.
\<close>

lemma second_run_creates_nothing:
  assumes range: "getOptionDateRange now options = Inr (s, e)"
    and fetch: "clockify (s, e) = Inr raw"
    and norm: "map_createTimeEntry (filter be_billable raw) = Inr timeEntries"
    and live: "\<not> opt_dryRun options"
    and trip: "\<forall>entry \<in> set timeEntries. \<forall>i. or_null (te_issueId entry) = Some i \<longrightarrow>
        extractInternalId (create_description (te_description entry) (te_id entry)) = Some (te_id entry)"
    and run1: "sync options now clockify w = Some (st1, None)"
  shows "\<exists>st2. sync options now clockify (rs_tracker st1) = Some (st2, None)
       \<and> rs_tracker st2 = rs_tracker st1 \<and> create_calls (rs_tracker st1) st2 = []"
proof -
  let ?st0 = "\<lambda>w. print (LogSyncing s e)
      \<lparr>rs_tracker = w, rs_log = (if opt_dryRun options then [LogDryRun] else [])\<rparr>"
  let ?w1 = "rs_tracker st1"
  have known: "\<forall>i \<in> issue_ids timeEntries. tr_issues w i \<noteq> None"
    by (rule sync_ok_issues_known [where clockify = clockify, OF range fetch norm run1])
  have loop1: "sync_entries options (getAllWorkItemTypes w) (tracker_index w timeEntries) timeEntries
      (?st0 w) = (st1, None)"
    using sync_on_tracker [where clockify = clockify, OF range fetch norm known] run1 by simp
  have snap: "\<forall>i ms. tracker_index w timeEntries i = Some ms \<longrightarrow>
      ms \<subseteq> tracker_markers (rs_tracker (?st0 w)) i"
  proof (intro allI impI)
    fix i ms assume "tracker_index w timeEntries i = Some ms"
    then have "ms = tracker_markers w i" by (rule tracker_index_markers)
    then show "ms \<subseteq> tracker_markers (rs_tracker (?st0 w)) i" by (simp add: rs_tracker_print)
  qed
  note marks = sync_entries_marks [OF live loop1 trip snap]
  have grows: "tr_issues ?w1 i = None \<longleftrightarrow> tr_issues w i = None" for i
    using sync_entries_grows [OF loop1, of i] by (simp add: rs_tracker_print)
  have known1: "\<forall>i \<in> issue_ids timeEntries. tr_issues ?w1 i \<noteq> None"
    using known grows by blast
  have run2: "sync options now clockify ?w1
      = Some (sync_entries options (getAllWorkItemTypes ?w1) (tracker_index ?w1 timeEntries)
                timeEntries (?st0 ?w1))"
    by (rule sync_on_tracker [where clockify = clockify, OF range fetch norm known1])
  have synced: "\<forall>entry \<in> set timeEntries. te_startDate entry \<noteq> None \<and>
       (\<forall>i. or_null (te_issueId entry) = Some i \<longrightarrow>
          (\<exists>ms. tracker_index ?w1 timeEntries i = Some ms \<and> te_id entry \<in> ms))"
  proof (intro ballI conjI allI impI)
    fix entry assume "entry \<in> set timeEntries"
    with marks show "te_startDate entry \<noteq> None" by blast
  next
    fix entry i assume en: "entry \<in> set timeEntries" and i: "or_null (te_issueId entry) = Some i"
    with marks have m: "te_id entry \<in> tracker_markers ?w1 i" by blast
    from en i have "i \<in> issue_ids timeEntries" by (auto simp: issue_ids_iff)
    moreover with known1 obtain issued where "tr_issues ?w1 i = Some issued" by auto
    ultimately have "tracker_index ?w1 timeEntries i = Some (tracker_markers ?w1 i)"
      by (simp add: tracker_index_def tracker_markers_def)
    with m show "\<exists>ms. tracker_index ?w1 timeEntries i = Some ms \<and> te_id entry \<in> ms" by blast
  qed
  obtain st2 err where r: "sync_entries options (getAllWorkItemTypes ?w1)
      (tracker_index ?w1 timeEntries) timeEntries (?st0 ?w1) = (st2, err)"
    by (cases "sync_entries options (getAllWorkItemTypes ?w1)
      (tracker_index ?w1 timeEntries) timeEntries (?st0 ?w1)")
  from sync_entries_all_synced [OF synced, of options "getAllWorkItemTypes ?w1" "?st0 ?w1"] r
  have "rs_tracker st2 = ?w1" and "err = None"
    by (simp_all add: rs_tracker_print)
  with run2 r show ?thesis
    by (simp add: create_calls_def)
qed

text \<open>
  In particular for entries whose identifiers have the shape of a marker and whose
  descriptions hold no bracketed token of that shape.
\<close>

lemma second_run_creates_nothing_plain:
  assumes "getOptionDateRange now options = Inr (s, e)"
    and "clockify (s, e) = Inr raw"
    and "map_createTimeEntry (filter be_billable raw) = Inr timeEntries"
    and "\<not> opt_dryRun options"
    and "\<forall>entry \<in> set timeEntries. marker_shape (te_id entry) \<and> search_marker (te_description entry) = None"
    and "sync options now clockify w = Some (st1, None)"
  shows "\<exists>st2. sync options now clockify (rs_tracker st1) = Some (st2, None)
       \<and> rs_tracker st2 = rs_tracker st1 \<and> create_calls (rs_tracker st1) st2 = []"
  using assms(1-4) _ assms(6)
proof (rule second_run_creates_nothing)
  show "\<forall>entry \<in> set timeEntries. \<forall>i. or_null (te_issueId entry) = Some i \<longrightarrow>
        extractInternalId (create_description (te_description entry) (te_id entry)) = Some (te_id entry)"
    using assms(5) by (simp add: extract_round_trip_plain)
qed

end
